theory Spec2Isabelle
  imports Complex_Main "HOL-Library.Char_ord" "HOL-Library.List_Lexorder" "HOL-Library.Multiset"
begin

section \<open>Values\<close>

text \<open>
  The backend is one Flask module, \<^verbatim>\<open>app.py\<close>: four request handlers over one SQLite
  table. The handlers are dynamically typed: what \<^verbatim>\<open>request.get_json()\<close> returns is any
  Python value that a JSON text denotes. A Python float is kept as its numeric value or
  one of the three special values; \<^verbatim>\<open>-0.0\<close> and \<^verbatim>\<open>0.0\<close> are both \<open>Finite 0\<close> (they
  compare equal and are both falsy).
\<close>

datatype pyfloat = Finite rat | PosInf | NegInf | NaN

text \<open>
  A \<open>PDict\<close> carries the items of the dictionary; a Python dictionary has each key once,
  and \<open>dict_get\<close> reads it as \<^verbatim>\<open>d.get(k)\<close> does, with \<open>PNone\<close> for a missing key.
  Strings are the UTF-8 bytes of the text. A JSON escape such as \<^verbatim>\<open>\ud800\<close> puts a lone
  surrogate into a Python \<^verbatim>\<open>str\<close>; it is kept as the three bytes that its code point
  would take, \<^verbatim>\<open>ED\<close>, then \<^verbatim>\<open>A0\<close> to \<^verbatim>\<open>BF\<close>, then one more, which no UTF-8 text
  holds. \<open>has_surrogate\<close> finds them.
\<close>

datatype pyval =
    PNone
  | PBool bool
  | PInt int
  | PFloat pyfloat
  | PStr string
  | PList "pyval list"
  | PDict "(string \<times> pyval) list"

fun has_surrogate :: "string \<Rightarrow> bool" where
  "has_surrogate (a # b # cs) =
     ((a = CHR 0xED \<and> (160::nat) \<le> of_char b) \<or> has_surrogate (b # cs))"
| "has_surrogate cs = False"

text \<open>Python truthiness, as \<^verbatim>\<open>not data\<close> and \<^verbatim>\<open>all([...])\<close> test it.\<close>

fun truthy :: "pyval \<Rightarrow> bool" where
  "truthy PNone = False"
| "truthy (PBool b) = b"
| "truthy (PInt i) = (i \<noteq> 0)"
| "truthy (PFloat f) = (f \<noteq> Finite 0)"
| "truthy (PStr s) = (s \<noteq> [])"
| "truthy (PList xs) = (xs \<noteq> [])"
| "truthy (PDict kvs) = (kvs \<noteq> [])"

definition dict_get :: "(string \<times> pyval) list \<Rightarrow> string \<Rightarrow> pyval" where
  "dict_get items k = (case map_of items k of None \<Rightarrow> PNone | Some v \<Rightarrow> v)"

text \<open>
  \<^verbatim>\<open>isinstance(quantidade, (int, float))\<close>: \<^verbatim>\<open>bool\<close> is a subclass of \<^verbatim>\<open>int\<close> in Python,
  so a boolean is an instance too.
\<close>

fun isinstance_int_float :: "pyval \<Rightarrow> bool" where
  "isinstance_int_float (PBool b) = True"
| "isinstance_int_float (PInt i) = True"
| "isinstance_int_float (PFloat f) = True"
| "isinstance_int_float v = False"

text \<open>
  \<^verbatim>\<open>quantidade <= 0\<close> on a value that passed \<open>isinstance_int_float\<close> (the \<^verbatim>\<open>or\<close> of the
  source evaluates it on such values only; the last equation is never reached).
  \<^verbatim>\<open>True\<close> compares as 1, \<^verbatim>\<open>False\<close> as 0, and every comparison with NaN is false.
\<close>

fun le_zero :: "pyval \<Rightarrow> bool" where
  "le_zero (PBool b) = (\<not> b)"
| "le_zero (PInt i) = (i \<le> 0)"
| "le_zero (PFloat (Finite r)) = (r \<le> 0)"
| "le_zero (PFloat PosInf) = False"
| "le_zero (PFloat NegInf) = True"
| "le_zero (PFloat NaN) = False"
| "le_zero v = False"

text \<open>
  \<^verbatim>\<open>datetime.now().isoformat()\<close>: the local time as \<^verbatim>\<open>YYYY-MM-DDTHH:MM:SS.ffffff\<close>,
  without the fraction when the microseconds are zero. The fields of a \<^verbatim>\<open>datetime\<close>
  are within their ranges (the year has four digits, the month two, and so on), so each
  is written with the digits of its width.
\<close>

record datetime =
  year :: nat
  month :: nat
  day :: nat
  hour :: nat
  minute :: nat
  second :: nat
  microsecond :: nat

definition digit :: "nat \<Rightarrow> char" where
  "digit n = ''0123456789'' ! (n mod 10)"

definition digits2 :: "nat \<Rightarrow> string" where
  "digits2 n = [digit (n div 10), digit n]"

definition digits4 :: "nat \<Rightarrow> string" where
  "digits4 n = [digit (n div 1000), digit (n div 100), digit (n div 10), digit n]"

definition digits6 :: "nat \<Rightarrow> string" where
  "digits6 n =
     [digit (n div 100000), digit (n div 10000), digit (n div 1000), digit (n div 100),
      digit (n div 10), digit n]"

definition isoformat :: "datetime \<Rightarrow> string" where
  "isoformat dt =
     digits4 (year dt) @ ''-'' @ digits2 (month dt) @ ''-'' @ digits2 (day dt) @ ''T'' @
     digits2 (hour dt) @ '':'' @ digits2 (minute dt) @ '':'' @ digits2 (second dt) @
     (if microsecond dt = 0 then [] else ''.'' @ digits6 (microsecond dt))"

section \<open>The SQLite table\<close>

text \<open>
  What SQLite stores in a cell. The module \<^verbatim>\<open>sqlite3\<close> binds a Python value to a
  statement parameter as follows: \<^verbatim>\<open>None\<close> is NULL; an \<^verbatim>\<open>int\<close> (a \<^verbatim>\<open>bool\<close> included) is
  a 64-bit INTEGER and raises \<^verbatim>\<open>OverflowError\<close> outside that range; a \<^verbatim>\<open>float\<close> is a
  REAL with NaN turned into NULL; a \<^verbatim>\<open>str\<close> is TEXT, where a lone surrogate raises
  \<^verbatim>\<open>UnicodeEncodeError\<close>, more than \<open>2 ^ 31 - 1\<close> bytes raise \<^verbatim>\<open>OverflowError\<close> and more
  than SQLite's length limit of \<open>10 ^ 9\<close> bytes raise \<^verbatim>\<open>DataError\<close>; a list or a
  dictionary is refused with \<^verbatim>\<open>ProgrammingError\<close> (\<^verbatim>\<open>InterfaceError\<close> before Python
  3.11).
\<close>

datatype sqlval = SNull | SInt int | SReal pyfloat | SText string

datatype py_exception =
    BadRequest
  | AttributeError
  | OverflowError
  | UnicodeEncodeError
  | ProgrammingError
  | DataError
  | IntegrityError
  | OperationalError

fun bind :: "pyval \<Rightarrow> py_exception + sqlval" where
  "bind PNone = Inr SNull"
| "bind (PBool b) = Inr (SInt (if b then 1 else 0))"
| "bind (PInt i) = (if - (2 ^ 63) \<le> i \<and> i < 2 ^ 63 then Inr (SInt i) else Inl OverflowError)"
| "bind (PFloat f) = Inr (if f = NaN then SNull else SReal f)"
| "bind (PStr s) =
     (if has_surrogate s then Inl UnicodeEncodeError
      else if 2 ^ 31 - 1 < length s then Inl OverflowError
      else if 1000000000 < length s then Inl DataError
      else Inr (SText s))"
| "bind (PList xs) = Inl ProgrammingError"
| "bind (PDict kvs) = Inl ProgrammingError"

text \<open>
  The parameters of a statement are bound in order; the first failure is raised. A
  statement given another number of parameters than it has placeholders is refused with
  \<^verbatim>\<open>ProgrammingError\<close>; the handlers always pass the right number.
\<close>

fun bind_all :: "pyval list \<Rightarrow> py_exception + sqlval list" where
  "bind_all [] = Inr []"
| "bind_all (p # ps) =
     (case bind p of
        Inl e \<Rightarrow> Inl e
      | Inr v \<Rightarrow> (case bind_all ps of Inl e \<Rightarrow> Inl e | Inr vs \<Rightarrow> Inr (v # vs)))"

text \<open>
  One row of the table \<^verbatim>\<open>movimentacoes\<close> that \<^verbatim>\<open>init_db\<close> creates. The columns
  \<^verbatim>\<open>tipo\<close>, \<^verbatim>\<open>data\<close>, \<^verbatim>\<open>produto\<close> and \<^verbatim>\<open>timestamp\<close> are \<^verbatim>\<open>TEXT NOT NULL\<close>: with
  the values that can be bound here they hold text. \<^verbatim>\<open>destino\<close> is \<^verbatim>\<open>TEXT\<close> and may be
  NULL (\<open>None\<close>). \<^verbatim>\<open>quantidade\<close> is \<^verbatim>\<open>REAL NOT NULL\<close>. The primary key \<^verbatim>\<open>id\<close> is
  the 64-bit rowid.
\<close>

record row =
  id_row :: int
  tipo :: string
  data :: string
  produto :: string
  quantidade :: sqlval
  destino :: "string option"
  timestamp :: string

text \<open>
  What a request sees of its surroundings: the clock, and three things that SQLite does
  and that are not part of this repository. Two are the conversions between storage
  classes that it applies for a column's affinity: the text of a number (\<open>num_to_text\<close>,
  applied to INTEGER and REAL values only) and the number that a well-formed numeric
  literal denotes (\<open>text_to_num\<close>, \<open>None\<close> for any other text). The third is the number
  of bytes that the record format adds to the text of a row, for its header and its
  quantity (\<open>record_overhead\<close>); it is at most 100, whatever the row.
\<close>

record env =
  clock :: datetime
  num_to_text :: "sqlval \<Rightarrow> string"
  text_to_num :: "string \<Rightarrow> sqlval option"
  record_overhead :: "row \<Rightarrow> nat"

definition now :: "env \<Rightarrow> string" where
  "now e = isoformat (clock e)"

text \<open>TEXT affinity: a number is stored as its text. \<open>None\<close> is NULL.\<close>

fun text_affinity :: "env \<Rightarrow> sqlval \<Rightarrow> string option" where
  "text_affinity e SNull = None"
| "text_affinity e (SText s) = Some s"
| "text_affinity e v = Some (num_to_text e v)"

text \<open>
  REAL affinity forces an integer into a 64-bit float. The conversion is exact up to
  \<open>2 ^ 53\<close> in magnitude; beyond, the integer is rounded to 53 significant bits, to the
  nearest, ties to the even neighbour. \<open>double_ulp a\<close> is the spacing of the floats
  around \<open>a\<close>.
\<close>

function double_ulp :: "int \<Rightarrow> int" where
  "double_ulp a = (if a < 2 ^ 53 then 1 else 2 * double_ulp (a div 2))"
  by pat_completeness auto
termination
  by (relation "measure nat") auto

declare double_ulp.simps [simp del]

definition int_to_double :: "int \<Rightarrow> int" where
  "int_to_double i =
     (let a = \<bar>i\<bar>; u = double_ulp a; q = a div u; r = a mod u;
          q' = (if 2 * r < u \<or> (2 * r = u \<and> even q) then q else q + 1)
      in sgn i * (q' * u))"

fun real_affinity :: "env \<Rightarrow> sqlval \<Rightarrow> sqlval" where
  "real_affinity e SNull = SNull"
| "real_affinity e (SInt i) = SReal (Finite (of_int (int_to_double i)))"
| "real_affinity e (SReal f) = SReal f"
| "real_affinity e (SText s) =
     (case text_to_num e s of
        Some (SInt i) \<Rightarrow> SReal (Finite (of_int (int_to_double i)))
      | Some (SReal f) \<Rightarrow> SReal f
      | _ \<Rightarrow> SText s)"

text \<open>
  A record longer than SQLite's length limit of \<open>10 ^ 9\<close> bytes is refused when the
  statement runs (\<^verbatim>\<open>string or blob too big\<close>, a \<^verbatim>\<open>DataError\<close>).
\<close>

definition text_bytes :: "row \<Rightarrow> nat" where
  "text_bytes r =
     length (tipo r) + length (data r) + length (produto r) +
     (case quantidade r of SText s \<Rightarrow> length s | _ \<Rightarrow> 0) +
     (case destino r of None \<Rightarrow> 0 | Some d \<Rightarrow> length d) + length (timestamp r)"

definition record_too_big :: "env \<Rightarrow> row \<Rightarrow> bool" where
  "record_too_big e r \<longleftrightarrow> 1000000000 < text_bytes r + min (record_overhead e r) 100"

text \<open>
  The process and its database file: the rows of the table in rowid order, the counter
  that \<^verbatim>\<open>AUTOINCREMENT\<close> keeps in \<^verbatim>\<open>sqlite_sequence\<close> (the largest rowid the table ever
  held), the number of connections that \<open>get_db_connection\<close> opened and no call of
  \<^verbatim>\<open>conn.close()\<close> closed, and whether one of these holds the write lock of the file.

  The module \<^verbatim>\<open>sqlite3\<close> begins a transaction before an INSERT, UPDATE or DELETE. The
  statement takes the write lock when it runs. Every handler commits right after a
  statement that succeeds, which releases the lock, so such a statement is applied to the
  table at once. A statement that fails while it runs (a NULL in a \<^verbatim>\<open>NOT NULL\<close> column,
  a record that is too big) changes nothing but leaves the transaction open; the handler
  then returns without \<^verbatim>\<open>rollback\<close> or \<^verbatim>\<open>close\<close>, and the abandoned connection keeps
  the write lock. While it does, every later INSERT, UPDATE or DELETE fails after the
  busy timeout with \<^verbatim>\<open>database is locked\<close> (an \<^verbatim>\<open>OperationalError\<close>); a SELECT still
  runs. Binding fails before any lock is taken.
\<close>

record state =
  movimentacoes :: "row list"
  sqlite_sequence :: int
  open_conns :: nat
  write_lock :: bool

definition get_db_connection :: "state \<Rightarrow> state" where
  "get_db_connection s = s\<lparr>open_conns := open_conns s + 1\<rparr>"

definition conn_close :: "state \<Rightarrow> state" where
  "conn_close s = s\<lparr>open_conns := open_conns s - 1\<rparr>"

text \<open>A database file that does not exist yet is created empty by the first connection.\<close>

definition fresh :: state where
  "fresh = \<lparr>movimentacoes = [], sqlite_sequence = 0, open_conns = 0, write_lock = False\<rparr>"

text \<open>\<^verbatim>\<open>CREATE TABLE IF NOT EXISTS\<close> leaves an existing table as it is.\<close>

definition init_db :: "state \<Rightarrow> state" where
  "init_db s = conn_close (get_db_connection s)"

text \<open>
  Python's garbage collector finalises an abandoned connection at a time of its own
  choosing. That rolls its transaction back and releases the write lock. It is a step of
  the surroundings, not of a handler.
\<close>

definition collect_garbage :: "state \<Rightarrow> state" where
  "collect_garbage s = s\<lparr>write_lock := False\<rparr>"

text \<open>
  The columns of a row after affinity, or the \<^verbatim>\<open>IntegrityError\<close> of a NULL in a
  \<^verbatim>\<open>NOT NULL\<close> column.
\<close>

definition coerce_columns ::
  "env \<Rightarrow> sqlval \<Rightarrow> sqlval \<Rightarrow> sqlval \<Rightarrow> sqlval \<Rightarrow> sqlval \<Rightarrow> sqlval \<Rightarrow> int \<Rightarrow> py_exception + row" where
  "coerce_columns e v_tipo v_data v_produto v_quantidade v_destino v_timestamp i =
     (case (text_affinity e v_tipo, text_affinity e v_data, text_affinity e v_produto,
            text_affinity e v_timestamp) of
        (Some t, Some d, Some p, Some ts) \<Rightarrow>
          (if real_affinity e v_quantidade = SNull then Inl IntegrityError
           else Inr \<lparr>id_row = i, tipo = t, data = d, produto = p,
                     quantidade = real_affinity e v_quantidade,
                     destino = text_affinity e v_destino, timestamp = ts\<rparr>)
      | _ \<Rightarrow> Inl IntegrityError)"

text \<open>
  \<^verbatim>\<open>INSERT INTO movimentacoes (tipo, data, produto, quantidade, destino, timestamp)
  VALUES (?, ?, ?, ?, ?, ?)\<close>. A failure comes with the state that it leaves. With
  \<^verbatim>\<open>AUTOINCREMENT\<close> the new rowid is one more than the largest rowid the table ever held;
  once that is the largest 64-bit integer, the insert fails (\<^verbatim>\<open>database or disk is
  full\<close>, an \<^verbatim>\<open>OperationalError\<close>), and SQLite rolls the transaction back by itself, so no
  lock stays. The rowid is assigned before the columns are checked.
\<close>

definition largest_rowid :: "state \<Rightarrow> int" where
  "largest_rowid s = foldr max (map id_row (movimentacoes s)) (sqlite_sequence s)"

definition execute_insert ::
  "env \<Rightarrow> pyval list \<Rightarrow> state \<Rightarrow> (py_exception \<times> state) + state" where
  "execute_insert e params s =
     (case bind_all params of
        Inl ex \<Rightarrow> Inl (ex, s)
      | Inr [v_tipo, v_data, v_produto, v_quantidade, v_destino, v_timestamp] \<Rightarrow>
          (if write_lock s then Inl (OperationalError, s)
           else if largest_rowid s \<ge> 2 ^ 63 - 1 then Inl (OperationalError, s)
           else
             (case coerce_columns e v_tipo v_data v_produto v_quantidade v_destino v_timestamp
                     (largest_rowid s + 1) of
                Inl ex \<Rightarrow> Inl (ex, s\<lparr>write_lock := True\<rparr>)
              | Inr r \<Rightarrow>
                  if record_too_big e r then Inl (DataError, s\<lparr>write_lock := True\<rparr>)
                  else Inr (s\<lparr>movimentacoes := movimentacoes s @ [r],
                              sqlite_sequence := largest_rowid s + 1\<rparr>)))
      | Inr vs \<Rightarrow> Inl (ProgrammingError, s))"

text \<open>
  \<^verbatim>\<open>UPDATE movimentacoes SET tipo = ?, data = ?, produto = ?, quantidade = ?,
  destino = ?, timestamp = ? WHERE id = ?\<close>. The result carries \<^verbatim>\<open>cursor.rowcount\<close>.
  The statement sets the six columns of every row with the id and leaves the row's
  \<^verbatim>\<open>id\<close> as it is. The \<^verbatim>\<open>NOT NULL\<close> constraints and the length of the record are
  checked on the rows that are written, so not at all when no row has the id.
\<close>

definition execute_update ::
  "env \<Rightarrow> pyval list \<Rightarrow> state \<Rightarrow> (py_exception \<times> state) + (nat \<times> state)" where
  "execute_update e params s =
     (case bind_all params of
        Inl ex \<Rightarrow> Inl (ex, s)
      | Inr [v_tipo, v_data, v_produto, v_quantidade, v_destino, v_timestamp, SInt i] \<Rightarrow>
          (if write_lock s then Inl (OperationalError, s)
           else if filter (\<lambda>r. id_row r = i) (movimentacoes s) = [] then Inr (0, s)
           else
             (case coerce_columns e v_tipo v_data v_produto v_quantidade v_destino v_timestamp i of
                Inl ex \<Rightarrow> Inl (ex, s\<lparr>write_lock := True\<rparr>)
              | Inr r' \<Rightarrow>
                  if list_ex (\<lambda>r. id_row r = i \<and> record_too_big e (r'\<lparr>id_row := id_row r\<rparr>))
                       (movimentacoes s)
                  then Inl (DataError, s\<lparr>write_lock := True\<rparr>)
                  else
                    Inr (length (filter (\<lambda>r. id_row r = i) (movimentacoes s)),
                         s\<lparr>movimentacoes :=
                              map (\<lambda>r. if id_row r = i then r'\<lparr>id_row := id_row r\<rparr> else r)
                                (movimentacoes s)\<rparr>)))
      | Inr vs \<Rightarrow> Inl (ProgrammingError, s))"

text \<open>\<^verbatim>\<open>DELETE FROM movimentacoes WHERE id = ?\<close>, with its \<^verbatim>\<open>cursor.rowcount\<close>.\<close>

definition execute_delete :: "int \<Rightarrow> state \<Rightarrow> (py_exception \<times> state) + (nat \<times> state)" where
  "execute_delete i s =
     (case bind (PInt i) of
        Inl ex \<Rightarrow> Inl (ex, s)
      | Inr v \<Rightarrow>
          if write_lock s then Inl (OperationalError, s)
          else
            Inr (length (filter (\<lambda>r. id_row r = i) (movimentacoes s)),
                 s\<lparr>movimentacoes := filter (\<lambda>r. id_row r \<noteq> i) (movimentacoes s)\<rparr>))"

text \<open>
  \<^verbatim>\<open>SELECT * FROM movimentacoes WHERE 1=1 [AND data >= ?] [AND data <= ?]
  ORDER BY timestamp DESC\<close>: the query with the conditions that the handler appended,
  each with its parameter. Text is compared byte by byte (the BINARY collation). Rows
  with equal timestamps come in the order of the table, that is by rowid.
\<close>

datatype condition = DataGe string | DataLe string

fun holds :: "condition \<Rightarrow> row \<Rightarrow> bool" where
  "holds (DataGe d) r = (d \<le> data r)"
| "holds (DataLe d) r = (data r \<le> d)"

definition execute_select :: "condition list \<Rightarrow> state \<Rightarrow> row list" where
  "execute_select conditions s =
     rev (sort_key timestamp
            (rev (filter (\<lambda>r. list_all (\<lambda>c. holds c r) conditions) (movimentacoes s))))"

section \<open>The handlers\<close>

text \<open>
  What a handler answers: \<^verbatim>\<open>jsonify(...)\<close> with a status (200 when the source gives
  none), or an exception that leaves the handler, which Flask answers itself.
  \<open>JErrorExc e\<close> is \<^verbatim>\<open>{"error": str(e)}\<close>.
\<close>

datatype payload =
    JError string
  | JMessage string
  | JErrorExc py_exception
  | JRows "row list"

datatype response = Response payload nat | Unhandled py_exception

text \<open>
  The texts of the answers, as the UTF-8 bytes of the source's literals (lines 98, 107,
  110, 120, 156, 157, 174 and 175).
\<close>

definition msg_dados_invalidos :: string where
  "msg_dados_invalidos = ''Dados inv'' @ [CHR 0xC3, CHR 0xA1] @ ''lidos''"

definition msg_campos_faltando :: string where
  "msg_campos_faltando = ''Campos obrigat'' @ [CHR 0xC3, CHR 0xB3] @ ''rios faltando''"

definition msg_quantidade :: string where
  "msg_quantidade =
     ''Quantidade deve ser um n'' @ [CHR 0xC3, CHR 0xBA] @ ''mero positivo''"

definition movimentacao :: string where
  "movimentacao = ''Movimenta'' @ [CHR 0xC3, CHR 0xA7, CHR 0xC3, CHR 0xA3] @ ''o''"

definition msg_adicionada :: string where
  "msg_adicionada = movimentacao @ '' adicionada com sucesso!''"

definition msg_atualizada :: string where
  "msg_atualizada = movimentacao @ '' atualizada com sucesso!''"

definition msg_excluida :: string where
  "msg_excluida = movimentacao @ '' exclu'' @ [CHR 0xC3, CHR 0xAD] @ ''da com sucesso!''"

definition msg_nao_encontrada :: string where
  "msg_nao_encontrada =
     movimentacao @ '' n'' @ [CHR 0xC3, CHR 0xA3] @ ''o encontrada''"

text \<open>
  The body of a request as \<^verbatim>\<open>request.get_json()\<close> sees it: \<open>NotJson\<close> when Flask
  raises (\<^verbatim>\<open>BadRequest\<close> for a body that does not parse), else the parsed value.
\<close>

datatype request_body = NotJson | Json pyval

text \<open>
  The query arguments \<^verbatim>\<open>dataInicio\<close> and \<^verbatim>\<open>dataFim\<close> are strings when present. A
  condition is appended when the argument is truthy: present and not the empty string.
  Werkzeug decodes the arguments from the request line, which gives them neither a lone
  surrogate nor a length near SQLite's limit, so they always bind.
\<close>

definition query_conditions :: "string option \<Rightarrow> string option \<Rightarrow> condition list" where
  "query_conditions data_inicio data_fim =
     (case data_inicio of None \<Rightarrow> [] | Some d \<Rightarrow> if d \<noteq> [] then [DataGe d] else []) @
     (case data_fim of None \<Rightarrow> [] | Some d \<Rightarrow> if d \<noteq> [] then [DataLe d] else [])"

definition get_movimentacoes :: "string option \<Rightarrow> string option \<Rightarrow> state \<Rightarrow> response \<times> state" where
  "get_movimentacoes data_inicio data_fim s =
     (let conn = get_db_connection s;
          movimentacoes_db = execute_select (query_conditions data_inicio data_fim) conn
      in (Response (JRows movimentacoes_db) 200, conn_close conn))"

definition add_movimentacao :: "env \<Rightarrow> request_body \<Rightarrow> state \<Rightarrow> response \<times> state" where
  "add_movimentacao e body s =
     (case body of
        NotJson \<Rightarrow> (Unhandled BadRequest, s)
      | Json d \<Rightarrow>
          if \<not> truthy d then (Response (JError msg_dados_invalidos) 400, s)
          else
            (case d of
               PDict items \<Rightarrow>
                 (let v_tipo = dict_get items ''tipo'';
                      data_movimentacao = dict_get items ''data'';
                      v_produto = dict_get items ''produto'';
                      v_quantidade = dict_get items ''quantidade'';
                      v_destino = dict_get items ''destino''
                  in
                    if \<not> (truthy v_tipo \<and> truthy data_movimentacao \<and> truthy v_produto
                          \<and> v_quantidade \<noteq> PNone)
                    then (Response (JError msg_campos_faltando) 400, s)
                    else if \<not> isinstance_int_float v_quantidade \<or> le_zero v_quantidade
                    then (Response (JError msg_quantidade) 400, s)
                    else
                      (let conn = get_db_connection s in
                       case execute_insert e
                              [v_tipo, data_movimentacao, v_produto, v_quantidade, v_destino,
                               PStr (now e)] conn of
                         Inl (ex, conn') \<Rightarrow> (Response (JErrorExc ex) 500, conn')
                       | Inr conn' \<Rightarrow>
                           (Response (JMessage msg_adicionada) 201, conn_close conn')))
             | _ \<Rightarrow> (Unhandled AttributeError, s)))"

definition update_movimentacao :: "env \<Rightarrow> int \<Rightarrow> request_body \<Rightarrow> state \<Rightarrow> response \<times> state" where
  "update_movimentacao e movimentacao_id body s =
     (case body of
        NotJson \<Rightarrow> (Unhandled BadRequest, s)
      | Json d \<Rightarrow>
          if \<not> truthy d then (Response (JError msg_dados_invalidos) 400, s)
          else
            (case d of
               PDict items \<Rightarrow>
                 (let v_tipo = dict_get items ''tipo'';
                      data_movimentacao = dict_get items ''data'';
                      v_produto = dict_get items ''produto'';
                      v_quantidade = dict_get items ''quantidade'';
                      v_destino = dict_get items ''destino''
                  in
                    if \<not> (truthy v_tipo \<and> truthy data_movimentacao \<and> truthy v_produto
                          \<and> v_quantidade \<noteq> PNone)
                    then (Response (JError msg_campos_faltando) 400, s)
                    else if \<not> isinstance_int_float v_quantidade \<or> le_zero v_quantidade
                    then (Response (JError msg_quantidade) 400, s)
                    else
                      (let conn = get_db_connection s in
                       case execute_update e
                              [v_tipo, data_movimentacao, v_produto, v_quantidade, v_destino,
                               PStr (now e), PInt movimentacao_id] conn of
                         Inl (ex, conn') \<Rightarrow> (Response (JErrorExc ex) 500, conn')
                       | Inr (rowcount, conn') \<Rightarrow>
                           if rowcount = 0
                           then (Response (JError msg_nao_encontrada) 404, conn_close conn')
                           else (Response (JMessage msg_atualizada) 200, conn_close conn')))
             | _ \<Rightarrow> (Unhandled AttributeError, s)))"

definition delete_movimentacao :: "int \<Rightarrow> state \<Rightarrow> response \<times> state" where
  "delete_movimentacao movimentacao_id s =
     (let conn = get_db_connection s in
      case execute_delete movimentacao_id conn of
        Inl (ex, conn') \<Rightarrow> (Response (JErrorExc ex) 500, conn')
      | Inr (rowcount, conn') \<Rightarrow>
          if rowcount = 0
          then (Response (JError msg_nao_encontrada) 404, conn_close conn')
          else (Response (JMessage msg_excluida) 200, conn_close conn'))"

section \<open>Vocabulary of the properties\<close>

subsection \<open>Requests\<close>

text \<open>
  The three checks of lines 97 to 110 (and 131 to 144) on the items of a JSON object,
  taken together.
\<close>

definition passes_validation :: "(string \<times> pyval) list \<Rightarrow> bool" where
  "passes_validation items \<longleftrightarrow>
     items \<noteq> [] \<and>
     truthy (dict_get items ''tipo'') \<and> truthy (dict_get items ''data'') \<and>
     truthy (dict_get items ''produto'') \<and> dict_get items ''quantidade'' \<noteq> PNone \<and>
     isinstance_int_float (dict_get items ''quantidade'') \<and>
     \<not> le_zero (dict_get items ''quantidade'')"

text \<open>
  A quantity that SQLite takes: a float above zero (infinity included) or an integer
  above zero within 64 bits. \<open>as_double\<close> is the 64-bit float that the \<^verbatim>\<open>REAL\<close> column
  holds for it. \<open>exact_quantity\<close> singles out the quantities that this float equals, and
  \<open>same_number\<close> compares a stored cell with a submitted number by value.
\<close>

fun storable_quantity :: "pyval \<Rightarrow> bool" where
  "storable_quantity (PInt i) = (0 < i \<and> i < 2 ^ 63)"
| "storable_quantity (PFloat (Finite r)) = (0 < r)"
| "storable_quantity (PFloat PosInf) = True"
| "storable_quantity v = False"

fun as_double :: "pyval \<Rightarrow> pyfloat" where
  "as_double (PInt i) = Finite (of_int (int_to_double i))"
| "as_double (PFloat f) = f"
| "as_double v = NaN"

fun exact_quantity :: "pyval \<Rightarrow> bool" where
  "exact_quantity (PInt i) = (0 < i \<and> i \<le> 2 ^ 53)"
| "exact_quantity (PFloat (Finite r)) = (0 < r)"
| "exact_quantity (PFloat PosInf) = True"
| "exact_quantity v = False"

fun same_number :: "sqlval \<Rightarrow> pyval \<Rightarrow> bool" where
  "same_number (SReal f) (PInt i) = (f = Finite (of_int i))"
| "same_number (SReal f) (PFloat g) = (f = g)"
| "same_number v q = False"

text \<open>
  A body with the types that the data model gives the fields: kind \<open>t\<close>, date \<open>d\<close> and
  product \<open>p\<close> are non-empty strings, the quantity \<open>q\<close> is storable, and the destination
  \<open>dst\<close> is a string, or is null or missing (\<open>None\<close>). The strings are Unicode text,
  with no lone surrogate, and take at most 999 999 000 bytes together, which keeps the
  record within SQLite's length limit whatever its timestamp and its overhead.
\<close>

definition typed_body ::
  "(string \<times> pyval) list \<Rightarrow> string \<Rightarrow> string \<Rightarrow> string \<Rightarrow> pyval \<Rightarrow> string option \<Rightarrow> bool" where
  "typed_body items t d p q dst \<longleftrightarrow>
     dict_get items ''tipo'' = PStr t \<and> t \<noteq> [] \<and> \<not> has_surrogate t \<and>
     dict_get items ''data'' = PStr d \<and> d \<noteq> [] \<and> \<not> has_surrogate d \<and>
     dict_get items ''produto'' = PStr p \<and> p \<noteq> [] \<and> \<not> has_surrogate p \<and>
     dict_get items ''quantidade'' = q \<and> storable_quantity q \<and>
     dict_get items ''destino'' = (case dst of None \<Rightarrow> PNone | Some x \<Rightarrow> PStr x) \<and>
     (case dst of None \<Rightarrow> True | Some x \<Rightarrow> \<not> has_surrogate x) \<and>
     length t + length d + length p + (case dst of None \<Rightarrow> 0 | Some x \<Rightarrow> length x)
       \<le> 999999000"

subsection \<open>Responses\<close>

text \<open>
  The answers to a request that fails validation: the three 400 responses of the
  handlers, and Flask's own for a body that does not parse. \<open>rejections\<close> adds the
  \<^verbatim>\<open>AttributeError\<close> of a truthy body that is not an object: the answers that are given
  before a connection is opened.
\<close>

definition validation_failure :: "response \<Rightarrow> bool" where
  "validation_failure r \<longleftrightarrow>
     r = Unhandled BadRequest \<or>
     r = Response (JError msg_dados_invalidos) 400 \<or>
     r = Response (JError msg_campos_faltando) 400 \<or>
     r = Response (JError msg_quantidade) 400"

definition rejections :: "response set" where
  "rejections =
     {Unhandled BadRequest, Unhandled AttributeError,
      Response (JError msg_dados_invalidos) 400,
      Response (JError msg_campos_faltando) 400,
      Response (JError msg_quantidade) 400}"

subsection \<open>The date range of a listing\<close>

text \<open>A bound applies when it is given and is not the empty string.\<close>

definition in_range :: "string option \<Rightarrow> string option \<Rightarrow> row \<Rightarrow> bool" where
  "in_range d1 d2 r \<longleftrightarrow>
     (\<forall>x. d1 = Some x \<and> x \<noteq> [] \<longrightarrow> x \<le> data r) \<and>
     (\<forall>x. d2 = Some x \<and> x \<noteq> [] \<longrightarrow> data r \<le> x)"

subsection \<open>The invariant of the table\<close>

text \<open>
  A record is valid when its quantity is a float above zero and its kind, date and
  product are not empty. In a valid table the records are valid and their ids are
  distinct, positive and at most the rowid counter.
\<close>

fun positive_real :: "sqlval \<Rightarrow> bool" where
  "positive_real (SReal (Finite r)) = (0 < r)"
| "positive_real (SReal PosInf) = True"
| "positive_real v = False"

definition row_valid :: "row \<Rightarrow> bool" where
  "row_valid r \<longleftrightarrow>
     positive_real (quantidade r) \<and> tipo r \<noteq> [] \<and> data r \<noteq> [] \<and> produto r \<noteq> []"

definition store_inv :: "state \<Rightarrow> bool" where
  "store_inv s \<longleftrightarrow>
     list_all row_valid (movimentacoes s) \<and>
     distinct (map id_row (movimentacoes s)) \<and>
     0 \<le> sqlite_sequence s \<and>
     list_all (\<lambda>r. 0 < id_row r \<and> id_row r \<le> sqlite_sequence s) (movimentacoes s)"

text \<open>
  How the ids of the table change in one operation: the counter never goes down, and the
  ids stay as they are, position by position, or one id above the old counter is
  appended, or the occurrences of one id are removed.
\<close>

definition ids_evolve :: "state \<Rightarrow> state \<Rightarrow> bool" where
  "ids_evolve s s' \<longleftrightarrow>
     sqlite_sequence s \<le> sqlite_sequence s' \<and>
     (map id_row (movimentacoes s') = map id_row (movimentacoes s)
      \<or> (sqlite_sequence s < sqlite_sequence s' \<and>
          map id_row (movimentacoes s') = map id_row (movimentacoes s) @ [sqlite_sequence s'])
      \<or> (\<exists>i. map id_row (movimentacoes s') = filter (\<lambda>j. j \<noteq> i) (map id_row (movimentacoes s))))"

text \<open>
  The one fact about SQLite's text of a number that the invariant needs: it is never
  empty.
\<close>

definition sqlite_text :: "env \<Rightarrow> bool" where
  "sqlite_text e \<longleftrightarrow> (\<forall>v. num_to_text e v \<noteq> [])"

text \<open>
  One operation of the service, with any arguments: \<open>init_db\<close> at the start of the
  process, a request to one of the four handlers, or a run of the garbage collector. The
  reachable states are those that operations produce from a new database file.
\<close>

inductive step :: "state \<Rightarrow> state \<Rightarrow> bool" where
  step_init: "step s (init_db s)"
| step_get: "step s (snd (get_movimentacoes data_inicio data_fim s))"
| step_add: "sqlite_text e \<Longrightarrow> step s (snd (add_movimentacao e body s))"
| step_update: "sqlite_text e \<Longrightarrow> step s (snd (update_movimentacao e i body s))"
| step_delete: "step s (snd (delete_movimentacao i s))"
| step_collect: "step s (collect_garbage s)"

inductive reachable :: "state \<Rightarrow> bool" where
  reachable_fresh: "reachable fresh"
| reachable_step: "reachable s \<Longrightarrow> step s s' \<Longrightarrow> reachable s'"

subsection \<open>Sample data\<close>

text \<open>
  The request of the spec's first scenario with a quantity of choice, the record it
  leaves, and two tables. The sample surroundings have the clock at noon of 10 January
  2024. No number goes to a text column in the samples, so their conversions are never
  applied.
\<close>

definition demo_env :: env where
  "demo_env =
     \<lparr>clock = \<lparr>year = 2024, month = 1, day = 10, hour = 12, minute = 0, second = 0,
               microsecond = 0\<rparr>,
      num_to_text = (\<lambda>v. ''0''), text_to_num = (\<lambda>s. None), record_overhead = (\<lambda>r. 44)\<rparr>"

definition demo_items :: "pyval \<Rightarrow> (string \<times> pyval) list" where
  "demo_items q =
     [(''tipo'', PStr ''entrada''), (''data'', PStr ''2024-01-10''),
      (''produto'', PStr ''soja''), (''quantidade'', q)]"

definition demo_row :: "int \<Rightarrow> rat \<Rightarrow> row" where
  "demo_row i q =
     \<lparr>id_row = i, tipo = ''entrada'', data = ''2024-01-10'', produto = ''soja'',
      quantidade = SReal (Finite q), destino = None, timestamp = ''2024-01-10T12:00:00''\<rparr>"

definition demo_state :: state where
  "demo_state =
     \<lparr>movimentacoes = [demo_row 1 1500], sqlite_sequence = 1, open_conns = 0,
      write_lock = False\<rparr>"

definition demo_state2 :: state where
  "demo_state2 =
     \<lparr>movimentacoes =
        [demo_row 1 1500,
         \<lparr>id_row = 2, tipo = ''saida'', data = ''2024-01-15'', produto = ''milho'',
          quantidade = SReal (Finite 20), destino = Some ''X'',
          timestamp = ''2024-01-15T08:30:00''\<rparr>],
      sqlite_sequence = 2, open_conns = 0, write_lock = False\<rparr>"

section \<open>Lemmas about the model\<close>

subsection \<open>Integers in the REAL column\<close>

lemmas sql_defs =
  execute_insert_def execute_update_def execute_delete_def execute_select_def
  coerce_columns_def get_db_connection_def conn_close_def largest_rowid_def

lemma double_ulp_small: "a < 2 ^ 53 \<Longrightarrow> double_ulp a = 1"
  by (simp add: double_ulp.simps)

lemma double_ulp_bounds: "0 < a \<Longrightarrow> 0 < double_ulp a \<and> double_ulp a \<le> a"
proof (induction a rule: double_ulp.induct)
  case (1 a)
  show ?case
  proof (cases "a < 2 ^ 53")
    case True
    with "1.prems" show ?thesis by (simp add: double_ulp_small)
  next
    case False
    then have pos: "0 < a div 2" by simp
    from "1.IH" [OF False pos] have "0 < double_ulp (a div 2)" "double_ulp (a div 2) \<le> a div 2"
      by simp_all
    moreover have "double_ulp a = 2 * double_ulp (a div 2)"
      using False by (subst double_ulp.simps) simp
    ultimately show ?thesis by simp
  qed
qed

lemma int_to_double_exact: "\<bar>i\<bar> \<le> 2 ^ 53 \<Longrightarrow> int_to_double i = i"
proof (cases "\<bar>i\<bar> < 2 ^ 53")
  case True
  then show ?thesis
    by (simp add: int_to_double_def double_ulp_small Let_def mult_sgn_abs)
next
  case False
  assume "\<bar>i\<bar> \<le> 2 ^ 53"
  with False have a: "\<bar>i\<bar> = 2 ^ 53" by simp
  have u: "double_ulp (2 ^ 53) = 2"
    by (subst double_ulp.simps) (simp add: double_ulp_small)
  have "sgn i * \<bar>i\<bar> = i" by (simp add: mult_sgn_abs)
  then show ?thesis
    using a u by (simp add: int_to_double_def Let_def)
qed

lemma int_to_double_pos:
  assumes "0 < i"
  shows "0 < int_to_double i"
proof -
  let ?u = "double_ulp i"
  have u: "0 < ?u" "?u \<le> i"
    using double_ulp_bounds [OF assms] by simp_all
  then have q: "0 < i div ?u"
    by (simp add: pos_imp_zdiv_pos_iff)
  have "0 < i div ?u * ?u"
    using u q by simp
  moreover have "0 < (i div ?u + 1) * ?u"
    using u q by simp
  ultimately show ?thesis
    using assms by (simp add: int_to_double_def Let_def)
qed

lemma int_to_double_rounds: "int_to_double 9007199254740993 = 9007199254740992"
proof -
  have "double_ulp 9007199254740993 = 2"
    by (subst double_ulp.simps) (simp add: double_ulp_small)
  then show ?thesis by (simp add: int_to_double_def)
qed

subsection \<open>Text that binds\<close>

lemma digit_ascii: "of_char (digit n) < (128::nat)"
proof -
  have "digit n \<in> set ''0123456789''"
    unfolding digit_def by (rule nth_mem) simp
  then show ?thesis by auto
qed

lemma ascii_no_surrogate:
  "list_all (\<lambda>c. of_char c < (128::nat)) s \<Longrightarrow> \<not> has_surrogate s"
  by (induction s rule: has_surrogate.induct) auto

lemma now_ascii: "list_all (\<lambda>c. of_char c < (128::nat)) (now e)"
  by (simp add: now_def isoformat_def digits2_def digits4_def digits6_def digit_ascii)

lemma length_now: "length (now e) \<le> 26"
  by (simp add: now_def isoformat_def digits2_def digits4_def digits6_def)

lemma bind_now: "bind (PStr (now e)) = Inr (SText (now e))"
  using ascii_no_surrogate [OF now_ascii, of e] length_now [of e] by simp

lemma now_demo_env: "now demo_env = ''2024-01-10T12:00:00''"
  by (simp add: now_def demo_env_def isoformat_def digits2_def digits4_def digit_def)

lemma bind_text: "\<not> has_surrogate s \<Longrightarrow> length s \<le> 1000000000 \<Longrightarrow> bind (PStr s) = Inr (SText s)"
  by simp

lemma record_fits: "text_bytes r + 100 \<le> 1000000000 \<Longrightarrow> \<not> record_too_big e r"
  by (simp add: record_too_big_def)

subsection \<open>The handlers on typed bodies\<close>

lemma typed_body_nonempty: "typed_body items t d p q dst \<Longrightarrow> items \<noteq> []"
  by (auto simp: typed_body_def dict_get_def)

lemma storable_quantity_valid:
  "storable_quantity q \<Longrightarrow> q \<noteq> PNone \<and> isinstance_int_float q \<and> \<not> le_zero q"
  by (induction q rule: storable_quantity.induct) simp_all

lemma typed_body_passes: "typed_body items t d p q dst \<Longrightarrow> passes_validation items"
  using typed_body_nonempty [of items t d p q dst] storable_quantity_valid [of q]
  by (simp add: typed_body_def passes_validation_def)

lemma storable_quantity_bind:
  "storable_quantity q \<Longrightarrow> \<exists>v. bind q = Inr v \<and> real_affinity e v = SReal (as_double q)"
  by (induction q rule: storable_quantity.induct) simp_all

lemma add_movimentacao_valid:
  "passes_validation items \<Longrightarrow>
   add_movimentacao e (Json (PDict items)) s =
     (case execute_insert e
             [dict_get items ''tipo'', dict_get items ''data'', dict_get items ''produto'',
              dict_get items ''quantidade'', dict_get items ''destino'', PStr (now e)]
             (get_db_connection s) of
        Inl (ex, c) \<Rightarrow> (Response (JErrorExc ex) 500, c)
      | Inr c \<Rightarrow> (Response (JMessage msg_adicionada) 201, conn_close c))"
  by (simp add: add_movimentacao_def passes_validation_def Let_def)

lemma update_movimentacao_valid:
  "passes_validation items \<Longrightarrow>
   update_movimentacao e i (Json (PDict items)) s =
     (case execute_update e
             [dict_get items ''tipo'', dict_get items ''data'', dict_get items ''produto'',
              dict_get items ''quantidade'', dict_get items ''destino'', PStr (now e), PInt i]
             (get_db_connection s) of
        Inl (ex, c) \<Rightarrow> (Response (JErrorExc ex) 500, c)
      | Inr (rowcount, c) \<Rightarrow>
          if rowcount = 0 then (Response (JError msg_nao_encontrada) 404, conn_close c)
          else (Response (JMessage msg_atualizada) 200, conn_close c))"
  by (simp add: update_movimentacao_def passes_validation_def Let_def)

lemma add_movimentacao_invalid:
  "\<not> (\<exists>items. body = Json (PDict items) \<and> passes_validation items) \<Longrightarrow>
   snd (add_movimentacao e body s) = s \<and> fst (add_movimentacao e body s) \<in> rejections"
  by (cases body; cases "case body of Json d \<Rightarrow> d")
     (auto simp: add_movimentacao_def passes_validation_def rejections_def Let_def)

lemma update_movimentacao_invalid:
  "\<not> (\<exists>items. body = Json (PDict items) \<and> passes_validation items) \<Longrightarrow>
   snd (update_movimentacao e i body s) = s \<and> fst (update_movimentacao e i body s) \<in> rejections"
  by (cases body; cases "case body of Json d \<Rightarrow> d")
     (auto simp: update_movimentacao_def passes_validation_def rejections_def Let_def)

lemma conn_round_trip [simp]:
  "conn_close (get_db_connection s\<lparr>movimentacoes := rs, sqlite_sequence := n\<rparr>)
     = s\<lparr>movimentacoes := rs, sqlite_sequence := n\<rparr>"
  "conn_close (get_db_connection s\<lparr>movimentacoes := rs\<rparr>) = s\<lparr>movimentacoes := rs\<rparr>"
  "conn_close (get_db_connection s) = s"
  by (simp_all add: conn_close_def get_db_connection_def)

lemma largest_rowid_conn [simp]: "largest_rowid (get_db_connection s) = largest_rowid s"
  by (simp add: largest_rowid_def get_db_connection_def)

lemma movimentacoes_conn [simp]: "movimentacoes (get_db_connection s) = movimentacoes s"
  by (simp add: get_db_connection_def)

lemma write_lock_conn [simp]:
  "write_lock (get_db_connection s) = write_lock s"
  "write_lock (conn_close s) = write_lock s"
  by (simp_all add: get_db_connection_def conn_close_def)

lemma typed_body_binds:
  assumes "typed_body items t d p q dst"
  shows "bind (dict_get items ''tipo'') = Inr (SText t)"
    and "bind (dict_get items ''data'') = Inr (SText d)"
    and "bind (dict_get items ''produto'') = Inr (SText p)"
    and "bind (dict_get items ''destino'') =
           Inr (case dst of None \<Rightarrow> SNull | Some x \<Rightarrow> SText x)"
  using assms by (auto simp: typed_body_def split: option.splits)

lemma typed_body_fits:
  assumes "typed_body items t d p q dst"
  shows "\<not> record_too_big e
           \<lparr>id_row = i, tipo = t, data = d, produto = p, quantidade = SReal f,
            destino = dst, timestamp = now e\<rparr>"
proof (rule record_fits)
  show "text_bytes \<lparr>id_row = i, tipo = t, data = d, produto = p, quantidade = SReal f,
            destino = dst, timestamp = now e\<rparr> + 100 \<le> 1000000000"
    using assms length_now [of e]
    by (simp add: typed_body_def text_bytes_def split: option.splits)
qed

lemma execute_insert_typed:
  assumes "typed_body items t d p q dst" and "largest_rowid s < 2 ^ 63 - 1"
    and "\<not> write_lock s"
  shows "execute_insert e
           [dict_get items ''tipo'', dict_get items ''data'', dict_get items ''produto'',
            dict_get items ''quantidade'', dict_get items ''destino'', PStr (now e)] s =
         Inr (s\<lparr>movimentacoes := movimentacoes s @
                   [\<lparr>id_row = largest_rowid s + 1, tipo = t, data = d, produto = p,
                     quantidade = SReal (as_double q), destino = dst, timestamp = now e\<rparr>],
                 sqlite_sequence := largest_rowid s + 1\<rparr>)"
proof -
  from assms(1) obtain v where v: "bind q = Inr v" "real_affinity e v = SReal (as_double q)"
    using storable_quantity_bind [of q e] by (auto simp: typed_body_def)
  have fits: "\<not> record_too_big e
           \<lparr>id_row = largest_rowid s + 1, tipo = t, data = d, produto = p,
            quantidade = SReal (as_double q), destino = dst, timestamp = now e\<rparr>"
    by (rule typed_body_fits [OF assms(1)])
  have q: "dict_get items ''quantidade'' = q"
    using assms(1) by (simp add: typed_body_def)
  show ?thesis
    using assms(2,3) v fits typed_body_binds [OF assms(1)] q
    by (cases dst)
       (simp_all add: execute_insert_def coerce_columns_def bind_now del: bind.simps)
qed

lemma add_movimentacao_typed:
  assumes "typed_body items t d p q dst" and "largest_rowid s < 2 ^ 63 - 1"
    and "\<not> write_lock s"
  shows "add_movimentacao e (Json (PDict items)) s =
         (Response (JMessage msg_adicionada) 201,
          s\<lparr>movimentacoes := movimentacoes s @
                   [\<lparr>id_row = largest_rowid s + 1, tipo = t, data = d, produto = p,
                     quantidade = SReal (as_double q), destino = dst, timestamp = now e\<rparr>],
             sqlite_sequence := largest_rowid s + 1\<rparr>)"
  using execute_insert_typed [OF assms(1), of "get_db_connection s" e] assms(2,3)
  by (simp add: add_movimentacao_valid [OF typed_body_passes [OF assms(1)]])

lemma filter_id_empty: "filter (\<lambda>r. id_row r = i) rs = [] \<longleftrightarrow> i \<notin> id_row ` set rs"
  by (auto simp: filter_empty_conv)

lemma execute_update_typed:
  assumes "typed_body items t d p q dst" and "- (2 ^ 63) \<le> i" and "i < 2 ^ 63"
    and "\<not> write_lock s"
  shows "execute_update e
           [dict_get items ''tipo'', dict_get items ''data'', dict_get items ''produto'',
            dict_get items ''quantidade'', dict_get items ''destino'', PStr (now e), PInt i] s =
         (if i \<notin> id_row ` set (movimentacoes s) then Inr (0, s)
          else Inr (length (filter (\<lambda>r. id_row r = i) (movimentacoes s)),
                    s\<lparr>movimentacoes :=
                        map (\<lambda>r. if id_row r = i
                                 then r\<lparr>tipo := t, data := d, produto := p,
                                        quantidade := SReal (as_double q), destino := dst,
                                        timestamp := now e\<rparr>
                                 else r) (movimentacoes s)\<rparr>))"
proof -
  from assms(1) obtain v where v: "bind q = Inr v" "real_affinity e v = SReal (as_double q)"
    using storable_quantity_bind [of q e] by (auto simp: typed_body_def)
  have upd: "\<And>r::row. \<lparr>id_row = id_row r, tipo = t, data = d, produto = p,
                  quantidade = SReal (as_double q), destino = dst, timestamp = now e\<rparr>
             = r\<lparr>tipo := t, data := d, produto := p, quantidade := SReal (as_double q),
                 destino := dst, timestamp := now e\<rparr>"
    by simp
  have fits: "\<And>j. \<not> record_too_big e
           \<lparr>id_row = j, tipo = t, data = d, produto = p,
            quantidade = SReal (as_double q), destino = dst, timestamp = now e\<rparr>"
    by (rule typed_body_fits [OF assms(1)])
  have q: "dict_get items ''quantidade'' = q"
    using assms(1) by (simp add: typed_body_def)
  have bi: "bind (PInt i) = Inr (SInt i)"
    using assms(2,3) by simp
  show ?thesis
    using assms(4) v typed_body_binds [OF assms(1)] q bi fits
    by (cases dst)
       (simp_all add: execute_update_def coerce_columns_def filter_id_empty upd bind_now
          list_ex_iff del: bind.simps)
qed

lemma update_movimentacao_typed:
  assumes "typed_body items t d p q dst" and "- (2 ^ 63) \<le> i" and "i < 2 ^ 63"
    and "\<not> write_lock s"
  shows "update_movimentacao e i (Json (PDict items)) s =
         (if i \<notin> id_row ` set (movimentacoes s)
          then (Response (JError msg_nao_encontrada) 404, s)
          else (Response (JMessage msg_atualizada) 200,
                s\<lparr>movimentacoes :=
                    map (\<lambda>r. if id_row r = i
                             then r\<lparr>tipo := t, data := d, produto := p,
                                    quantidade := SReal (as_double q), destino := dst,
                                    timestamp := now e\<rparr>
                             else r) (movimentacoes s)\<rparr>))"
proof -
  have "i \<in> id_row ` set (movimentacoes s) \<Longrightarrow>
        filter (\<lambda>r. id_row r = i) (movimentacoes s) \<noteq> []"
    by (simp add: filter_id_empty)
  then show ?thesis
    using execute_update_typed [OF assms(1-3), of "get_db_connection s" e] assms(4)
    by (simp add: update_movimentacao_valid [OF typed_body_passes [OF assms(1)]])
qed

lemma delete_movimentacao_eq:
  assumes "- (2 ^ 63) \<le> i" and "i < 2 ^ 63" and "\<not> write_lock s"
  shows "delete_movimentacao i s =
         (if i \<notin> id_row ` set (movimentacoes s)
          then (Response (JError msg_nao_encontrada) 404, s)
          else (Response (JMessage msg_excluida) 200,
                s\<lparr>movimentacoes := filter (\<lambda>r. id_row r \<noteq> i) (movimentacoes s)\<rparr>))"
proof -
  have a: "i \<notin> id_row ` set (movimentacoes s) \<Longrightarrow>
        filter (\<lambda>r. id_row r \<noteq> i) (movimentacoes s) = movimentacoes s"
    by (auto simp: filter_id_conv)
  have b: "i \<in> id_row ` set (movimentacoes s) \<Longrightarrow>
        filter (\<lambda>r. id_row r = i) (movimentacoes s) \<noteq> []"
    by (simp add: filter_id_empty)
  show ?thesis
    using assms a b
    by (simp add: delete_movimentacao_def execute_delete_def Let_def filter_id_empty)
qed

lemma get_movimentacoes_eq:
  "get_movimentacoes d1 d2 s =
     (Response (JRows (execute_select (query_conditions d1 d2) s)) 200, s)"
  by (simp add: get_movimentacoes_def Let_def execute_select_def)

lemma query_conditions_in_range:
  "list_all (\<lambda>c. holds c r) (query_conditions d1 d2) = in_range d1 d2 r"
  by (auto simp: query_conditions_def in_range_def split: option.splits)

lemma execute_select_mset:
  "mset (execute_select (query_conditions d1 d2) s) =
     filter_mset (in_range d1 d2) (mset (movimentacoes s))"
  by (simp add: execute_select_def query_conditions_in_range)

lemma execute_select_sorted:
  "sorted_wrt (\<lambda>a b. timestamp b \<le> timestamp a) (execute_select conditions s)"
proof -
  have "sorted (map timestamp (sort_key timestamp
          (rev (filter (\<lambda>r. list_all (\<lambda>c. holds c r) conditions) (movimentacoes s)))))"
    by (rule sorted_sort_key)
  then show ?thesis
    by (simp add: execute_select_def sorted_wrt_rev sorted_map)
qed

subsection \<open>Quantities and rowids\<close>

lemma exact_quantity_same:
  "exact_quantity q \<Longrightarrow> storable_quantity q \<and> same_number (SReal (as_double q)) q"
  by (induction q rule: exact_quantity.induct) (simp_all add: int_to_double_exact)

lemma foldr_max_ge: "n \<le> foldr max xs (n::int)"
  by (induction xs) auto

lemma foldr_max_mem: "x \<in> set xs \<Longrightarrow> x \<le> foldr max xs (n::int)"
  by (induction xs) auto

lemma largest_rowid_ge: "sqlite_sequence s \<le> largest_rowid s"
  by (simp add: largest_rowid_def foldr_max_ge)

lemma largest_rowid_mem: "r \<in> set (movimentacoes s) \<Longrightarrow> id_row r \<le> largest_rowid s"
  by (simp add: largest_rowid_def foldr_max_mem)

lemma distinct_unique_index:
  assumes "distinct (map f xs)" and "x \<in> set xs"
  shows "\<exists>!k. k < length xs \<and> f (xs ! k) = f x"
proof -
  from assms(2) obtain k where k: "k < length xs" "xs ! k = x"
    by (auto simp: in_set_conv_nth)
  show ?thesis
  proof (rule ex1I [of _ k])
    show "k < length xs \<and> f (xs ! k) = f x" using k by simp
  next
    fix j assume j: "j < length xs \<and> f (xs ! j) = f x"
    then have "map f xs ! j = map f xs ! k"
      using k by simp
    moreover have "j < length (map f xs)" "k < length (map f xs)"
      using j k by simp_all
    ultimately show "j = k"
      using nth_eq_iff_index_eq [OF assms(1)] by blast
  qed
qed

subsection \<open>What a successful statement wrote\<close>

lemma bind_truthy_text:
  assumes "sqlite_text e" and "truthy p" and "bind p = Inr v" and "text_affinity e v = Some x"
  shows "x \<noteq> []"
  using assms by (cases p) (auto simp: sqlite_text_def split: if_splits)

lemma bind_positive_real:
  assumes "isinstance_int_float q" and "\<not> le_zero q" and "bind q = Inr v"
    and "real_affinity e v \<noteq> SNull"
  shows "positive_real (real_affinity e v)"
proof (cases q)
  case (PBool b)
  with assms show ?thesis using int_to_double_pos [of 1] by auto
next
  case (PInt i)
  with assms show ?thesis using int_to_double_pos [of i] by (auto split: if_splits)
next
  case (PFloat f)
  with assms show ?thesis by (cases f) auto
qed (use assms in auto)

lemma bind_all_Cons_Inr:
  "bind_all (p # ps) = Inr vs \<longleftrightarrow> (\<exists>v vs'. vs = v # vs' \<and> bind p = Inr v \<and> bind_all ps = Inr vs')"
  by (auto split: sum.splits)

lemma bind_all_Nil_Inr: "bind_all [] = Inr vs \<longleftrightarrow> vs = []"
  by auto

lemma coerce_columns_valid:
  assumes "coerce_columns e vt vd vp vq vdst vts i = Inr r"
    and "sqlite_text e"
    and "truthy t" "bind t = Inr vt"
    and "truthy d" "bind d = Inr vd"
    and "truthy p" "bind p = Inr vp"
    and "isinstance_int_float q" "\<not> le_zero q" "bind q = Inr vq"
  shows "row_valid r \<and> id_row r = i"
proof -
  from assms(1) obtain xt xd xp xts where
    x: "text_affinity e vt = Some xt" "text_affinity e vd = Some xd"
       "text_affinity e vp = Some xp" "text_affinity e vts = Some xts"
    and nn: "real_affinity e vq \<noteq> SNull"
    and r: "r = \<lparr>id_row = i, tipo = xt, data = xd, produto = xp,
                 quantidade = real_affinity e vq, destino = text_affinity e vdst,
                 timestamp = xts\<rparr>"
    by (auto simp: coerce_columns_def split: option.splits if_splits)
  have "xt \<noteq> []" "xd \<noteq> []" "xp \<noteq> []"
    using bind_truthy_text [OF assms(2)] assms x by blast+
  moreover have "positive_real (real_affinity e vq)"
    using bind_positive_real assms nn by blast
  ultimately show ?thesis
    by (simp add: r row_valid_def)
qed

lemma execute_insert_Inr:
  assumes "execute_insert e [t, d, p, q, dst, ts] s = Inr s'"
  shows "\<exists>vt vd vp vq vdst vts r.
           bind t = Inr vt \<and> bind d = Inr vd \<and> bind p = Inr vp \<and> bind q = Inr vq \<and>
           coerce_columns e vt vd vp vq vdst vts (largest_rowid s + 1) = Inr r \<and>
           s' = s\<lparr>movimentacoes := movimentacoes s @ [r],
                  sqlite_sequence := largest_rowid s + 1\<rparr>"
proof (cases "bind_all [t, d, p, q, dst, ts]")
  case (Inl ex)
  with assms show ?thesis by (simp add: execute_insert_def)
next
  case (Inr vs)
  then obtain vt vd vp vq vdst vts where
    vs: "vs = [vt, vd, vp, vq, vdst, vts]"
    and b: "bind t = Inr vt" "bind d = Inr vd" "bind p = Inr vp" "bind q = Inr vq"
    by (auto simp: bind_all_Cons_Inr bind_all_Nil_Inr simp del: bind_all.simps)
  from assms Inr vs obtain r where
    "coerce_columns e vt vd vp vq vdst vts (largest_rowid s + 1) = Inr r"
    "s' = s\<lparr>movimentacoes := movimentacoes s @ [r], sqlite_sequence := largest_rowid s + 1\<rparr>"
    by (auto simp: execute_insert_def split: if_splits sum.splits)
  with b show ?thesis by blast
qed

lemma execute_update_Inr:
  assumes "execute_update e [t, d, p, q, dst, ts, PInt i] s = Inr (n, s')"
  shows "s' = s \<or>
         (\<exists>vt vd vp vq vdst vts r.
            bind t = Inr vt \<and> bind d = Inr vd \<and> bind p = Inr vp \<and> bind q = Inr vq \<and>
            coerce_columns e vt vd vp vq vdst vts i = Inr r \<and>
            s' = s\<lparr>movimentacoes :=
                     map (\<lambda>x. if id_row x = i then r\<lparr>id_row := id_row x\<rparr> else x)
                       (movimentacoes s)\<rparr>)"
proof (cases "bind_all [t, d, p, q, dst, ts, PInt i]")
  case (Inl ex)
  with assms show ?thesis by (simp add: execute_update_def)
next
  case (Inr vs)
  then obtain vt vd vp vq vdst vts vi where
    vs: "vs = [vt, vd, vp, vq, vdst, vts, vi]"
    and b: "bind t = Inr vt" "bind d = Inr vd" "bind p = Inr vp" "bind q = Inr vq"
    and i: "bind (PInt i) = Inr vi"
    by (auto simp: bind_all_Cons_Inr bind_all_Nil_Inr simp del: bind_all.simps bind.simps)
  from i have vi: "vi = SInt i" by (auto split: if_splits)
  from assms Inr vs vi have
    "s' = s \<or> (\<exists>r. coerce_columns e vt vd vp vq vdst vts i = Inr r \<and>
       s' = s\<lparr>movimentacoes :=
                map (\<lambda>x. if id_row x = i then r\<lparr>id_row := id_row x\<rparr> else x)
                  (movimentacoes s)\<rparr>)"
    by (auto simp: execute_update_def split: if_splits sum.splits)
  with b show ?thesis by blast
qed

lemma execute_insert_Inl:
  assumes "execute_insert e ps s = Inl (ex, s')"
  shows "movimentacoes s' = movimentacoes s \<and> sqlite_sequence s' = sqlite_sequence s"
  using assms
  by (auto simp: execute_insert_def split: sum.splits list.splits if_splits)

lemma execute_update_Inl:
  assumes "execute_update e ps s = Inl (ex, s')"
  shows "movimentacoes s' = movimentacoes s \<and> sqlite_sequence s' = sqlite_sequence s"
  using assms
  by (auto simp: execute_update_def split: sum.splits list.splits sqlval.splits if_splits)

lemma execute_delete_Inl:
  assumes "execute_delete i s = Inl (ex, s')"
  shows "movimentacoes s' = movimentacoes s \<and> sqlite_sequence s' = sqlite_sequence s"
  using assms
  by (auto simp: execute_delete_def split: sum.splits if_splits)

subsection \<open>The invariant, operation by operation\<close>

lemma foldr_max_bounded: "\<forall>x \<in> set xs. x \<le> n \<Longrightarrow> foldr max xs (n::int) = n"
  by (induction xs) auto

lemma largest_rowid_inv: "store_inv s \<Longrightarrow> largest_rowid s = sqlite_sequence s"
  by (simp add: store_inv_def largest_rowid_def foldr_max_bounded list_all_iff)

lemma store_inv_cong:
  "movimentacoes s' = movimentacoes s \<Longrightarrow> sqlite_sequence s' = sqlite_sequence s \<Longrightarrow>
   store_inv s' = store_inv s"
  by (simp add: store_inv_def)

lemma store_inv_append:
  assumes "store_inv s" and "row_valid r" and "id_row r = sqlite_sequence s + 1"
  shows "store_inv (s\<lparr>movimentacoes := movimentacoes s @ [r],
                       sqlite_sequence := sqlite_sequence s + 1\<rparr>)"
  using assms by (fastforce simp: store_inv_def list_all_iff)

lemma store_inv_map:
  assumes "store_inv s" and "row_valid r"
  shows "store_inv (s\<lparr>movimentacoes :=
            map (\<lambda>x. if id_row x = i then r\<lparr>id_row := id_row x\<rparr> else x) (movimentacoes s)\<rparr>)"
proof -
  have ids: "id_row \<circ> (\<lambda>x. if id_row x = i then r\<lparr>id_row := id_row x\<rparr> else x) = id_row"
    by (auto simp: fun_eq_iff)
  have "row_valid (r\<lparr>id_row := j\<rparr>)" for j
    using assms(2) by (simp add: row_valid_def)
  then show ?thesis
    using assms(1) by (auto simp: store_inv_def list_all_iff ids)
qed

lemma store_inv_filter:
  "store_inv s \<Longrightarrow> store_inv (s\<lparr>movimentacoes := filter P (movimentacoes s)\<rparr>)"
  by (auto simp: store_inv_def list_all_iff distinct_map_filter)

lemma ids_evolve_same:
  "movimentacoes s' = movimentacoes s \<Longrightarrow> sqlite_sequence s' = sqlite_sequence s \<Longrightarrow>
   ids_evolve s s'"
  by (simp add: ids_evolve_def)

lemma store_inv_conn [simp]: "store_inv (get_db_connection s) = store_inv s"
  by (simp add: store_inv_def get_db_connection_def)

lemma store_inv_close [simp]: "store_inv (conn_close s) = store_inv s"
  by (simp add: store_inv_def conn_close_def)

lemma sqlite_sequence_conn [simp]:
  "sqlite_sequence (get_db_connection s) = sqlite_sequence s"
  "sqlite_sequence (conn_close s) = sqlite_sequence s"
  "movimentacoes (conn_close s) = movimentacoes s"
  by (simp_all add: get_db_connection_def conn_close_def)

lemma add_preserves:
  assumes "store_inv s" and "sqlite_text e"
  shows "store_inv (snd (add_movimentacao e body s)) \<and>
         ids_evolve s (snd (add_movimentacao e body s))"
proof (cases "\<exists>items. body = Json (PDict items) \<and> passes_validation items")
  case False
  then have "snd (add_movimentacao e body s) = s"
    using add_movimentacao_invalid by blast
  with assms show ?thesis by (simp add: ids_evolve_same)
next
  case True
  then obtain items where body: "body = Json (PDict items)" and v: "passes_validation items"
    by blast
  let ?c = "get_db_connection s"
  let ?ins = "execute_insert e
                [dict_get items ''tipo'', dict_get items ''data'', dict_get items ''produto'',
                 dict_get items ''quantidade'', dict_get items ''destino'', PStr (now e)] ?c"
  show ?thesis
  proof (cases ?ins)
    case (Inl failure)
    obtain ex c' where failure: "failure = (ex, c')" by (cases failure)
    with Inl have res: "snd (add_movimentacao e body s) = c'"
      by (simp add: body add_movimentacao_valid [OF v])
    from execute_insert_Inl [OF Inl [unfolded failure]]
    have "movimentacoes c' = movimentacoes s" "sqlite_sequence c' = sqlite_sequence s"
      by simp_all
    with assms show ?thesis
      by (simp add: res ids_evolve_same store_inv_cong [of c' s])
  next
    case (Inr c')
    then have res: "snd (add_movimentacao e body s) = conn_close c'"
      by (simp add: body add_movimentacao_valid [OF v])
    from execute_insert_Inr [OF Inr] obtain vt vd vp vq vdst vts r where
      b: "bind (dict_get items ''tipo'') = Inr vt" "bind (dict_get items ''data'') = Inr vd"
         "bind (dict_get items ''produto'') = Inr vp" "bind (dict_get items ''quantidade'') = Inr vq"
      and co: "coerce_columns e vt vd vp vq vdst vts (largest_rowid ?c + 1) = Inr r"
      and c': "c' = ?c\<lparr>movimentacoes := movimentacoes ?c @ [r],
                          sqlite_sequence := largest_rowid ?c + 1\<rparr>"
      by blast
    have lr: "largest_rowid s = sqlite_sequence s"
      by (rule largest_rowid_inv [OF assms(1)])
    from v have "row_valid r \<and> id_row r = largest_rowid ?c + 1"
      using coerce_columns_valid [OF co assms(2) _ b(1) _ b(2) _ b(3) _ _ b(4)]
      by (simp add: passes_validation_def)
    then have r: "row_valid r" "id_row r = sqlite_sequence s + 1"
      using lr by simp_all
    have inv: "store_inv (s\<lparr>movimentacoes := movimentacoes s @ [r],
                               sqlite_sequence := sqlite_sequence s + 1\<rparr>)"
      by (rule store_inv_append [OF assms(1) r])
    have rows: "movimentacoes c' = movimentacoes s @ [r]"
      and seq: "sqlite_sequence c' = sqlite_sequence s + 1"
      by (simp_all add: c' lr)
    have "store_inv (conn_close c')"
      using inv by (simp add: store_inv_def rows seq)
    moreover have "ids_evolve s (conn_close c')"
      by (simp add: ids_evolve_def rows seq r)
    ultimately show ?thesis by (simp add: res)
  qed
qed

lemma update_preserves:
  assumes "store_inv s" and "sqlite_text e"
  shows "store_inv (snd (update_movimentacao e i body s)) \<and>
         ids_evolve s (snd (update_movimentacao e i body s))"
proof (cases "\<exists>items. body = Json (PDict items) \<and> passes_validation items")
  case False
  then have "snd (update_movimentacao e i body s) = s"
    using update_movimentacao_invalid by blast
  with assms show ?thesis by (simp add: ids_evolve_same)
next
  case True
  then obtain items where body: "body = Json (PDict items)" and v: "passes_validation items"
    by blast
  let ?c = "get_db_connection s"
  let ?upd = "execute_update e
                [dict_get items ''tipo'', dict_get items ''data'', dict_get items ''produto'',
                 dict_get items ''quantidade'', dict_get items ''destino'', PStr (now e), PInt i] ?c"
  show ?thesis
  proof (cases ?upd)
    case (Inl failure)
    obtain ex c' where failure: "failure = (ex, c')" by (cases failure)
    with Inl have res: "snd (update_movimentacao e i body s) = c'"
      by (simp add: body update_movimentacao_valid [OF v])
    from execute_update_Inl [OF Inl [unfolded failure]]
    have "movimentacoes c' = movimentacoes s" "sqlite_sequence c' = sqlite_sequence s"
      by simp_all
    with assms show ?thesis
      by (simp add: res ids_evolve_same store_inv_cong [of c' s])
  next
    case (Inr nc)
    obtain n c' where nc: "nc = (n, c')" by (cases nc)
    with Inr have res: "snd (update_movimentacao e i body s) = conn_close c'"
      by (simp add: body update_movimentacao_valid [OF v])
    from execute_update_Inr [OF Inr [unfolded nc]] consider
      (same) "c' = ?c"
      | (written) vt vd vp vq vdst vts r where
          "bind (dict_get items ''tipo'') = Inr vt" "bind (dict_get items ''data'') = Inr vd"
          "bind (dict_get items ''produto'') = Inr vp" "bind (dict_get items ''quantidade'') = Inr vq"
          "coerce_columns e vt vd vp vq vdst vts i = Inr r"
          "c' = ?c\<lparr>movimentacoes :=
                    map (\<lambda>x. if id_row x = i then r\<lparr>id_row := id_row x\<rparr> else x)
                      (movimentacoes ?c)\<rparr>"
      by blast
    then show ?thesis
    proof cases
      case same
      with assms show ?thesis by (simp add: res ids_evolve_same)
    next
      case written
      from v have "row_valid r"
        using coerce_columns_valid [OF written(5) assms(2) _ written(1) _ written(2) _ written(3)
            _ _ written(4)]
        by (simp add: passes_validation_def)
      then have inv: "store_inv (s\<lparr>movimentacoes :=
            map (\<lambda>x. if id_row x = i then r\<lparr>id_row := id_row x\<rparr> else x) (movimentacoes s)\<rparr>)"
        by (rule store_inv_map [OF assms(1)])
      have ids: "id_row \<circ> (\<lambda>x. if id_row x = i then r\<lparr>id_row := id_row x\<rparr> else x) = id_row"
        by (auto simp: fun_eq_iff)
      have "store_inv (conn_close c')"
        using inv by (simp add: written(6) store_inv_def)
      moreover have "ids_evolve s (conn_close c')"
        by (simp add: ids_evolve_def written(6) ids)
      ultimately show ?thesis by (simp add: res)
    qed
  qed
qed

lemma delete_preserves:
  assumes "store_inv s"
  shows "store_inv (snd (delete_movimentacao i s)) \<and>
         ids_evolve s (snd (delete_movimentacao i s))"
proof (cases "execute_delete i (get_db_connection s)")
  case (Inl failure)
  obtain ex c' where failure: "failure = (ex, c')" by (cases failure)
  with Inl have res: "snd (delete_movimentacao i s) = c'"
    by (simp add: delete_movimentacao_def Let_def)
  from execute_delete_Inl [OF Inl [unfolded failure]]
  have "movimentacoes c' = movimentacoes s" "sqlite_sequence c' = sqlite_sequence s"
    by simp_all
  with assms show ?thesis
    by (simp add: res ids_evolve_same store_inv_cong [of c' s])
next
  case (Inr outcome)
  let ?s' = "s\<lparr>movimentacoes := filter (\<lambda>r. id_row r \<noteq> i) (movimentacoes s)\<rparr>"
  from Inr have rows: "movimentacoes (snd (delete_movimentacao i s)) = movimentacoes ?s'"
    and seq: "sqlite_sequence (snd (delete_movimentacao i s)) = sqlite_sequence ?s'"
    by (auto simp: delete_movimentacao_def execute_delete_def Let_def
          split: sum.splits if_splits)
  have "store_inv ?s'"
    by (rule store_inv_filter [OF assms])
  then have "store_inv (snd (delete_movimentacao i s))"
    by (simp add: store_inv_cong [OF rows seq])
  moreover have "map id_row (movimentacoes ?s') = filter (\<lambda>j. j \<noteq> i) (map id_row (movimentacoes s))"
    by (simp add: filter_map comp_def)
  then have "ids_evolve s (snd (delete_movimentacao i s))"
    unfolding ids_evolve_def rows seq by auto
  ultimately show ?thesis by simp
qed

lemma step_preserves:
  assumes "store_inv s" and "step s s'"
  shows "store_inv s' \<and> ids_evolve s s'"
  using assms(2)
proof cases
  case step_init
  with assms(1) show ?thesis by (simp add: init_db_def ids_evolve_same)
next
  case (step_get data_inicio data_fim)
  with assms(1) show ?thesis by (simp add: get_movimentacoes_eq ids_evolve_same)
next
  case (step_add e body)
  with assms(1) show ?thesis using add_preserves by simp
next
  case (step_update e i body)
  with assms(1) show ?thesis using update_preserves by simp
next
  case (step_delete i)
  with assms(1) show ?thesis using delete_preserves by simp
next
  case step_collect
  with assms(1) show ?thesis
    by (simp add: collect_garbage_def ids_evolve_same store_inv_def)
qed

lemma reachable_inv: "reachable s \<Longrightarrow> store_inv s"
proof (induction rule: reachable.induct)
  case reachable_fresh
  show ?case by (simp add: store_inv_def fresh_def)
next
  case (reachable_step s s')
  then show ?case using step_preserves by blast
qed

subsection \<open>What an update and a delete leave alone\<close>

lemma update_frame:
  "length (movimentacoes (snd (update_movimentacao e i body s))) = length (movimentacoes s)
   \<and> sqlite_sequence (snd (update_movimentacao e i body s)) = sqlite_sequence s
   \<and> (\<forall>k < length (movimentacoes s).
         id_row (movimentacoes s ! k) \<noteq> i \<longrightarrow>
         movimentacoes (snd (update_movimentacao e i body s)) ! k = movimentacoes s ! k)"
proof (cases "\<exists>items. body = Json (PDict items) \<and> passes_validation items")
  case False
  then have "snd (update_movimentacao e i body s) = s"
    using update_movimentacao_invalid by blast
  then show ?thesis by simp
next
  case True
  then obtain items where body: "body = Json (PDict items)" and v: "passes_validation items"
    by blast
  let ?c = "get_db_connection s"
  let ?upd = "execute_update e
                [dict_get items ''tipo'', dict_get items ''data'', dict_get items ''produto'',
                 dict_get items ''quantidade'', dict_get items ''destino'', PStr (now e), PInt i] ?c"
  show ?thesis
  proof (cases ?upd)
    case (Inl failure)
    obtain ex c' where failure: "failure = (ex, c')" by (cases failure)
    with Inl have res: "snd (update_movimentacao e i body s) = c'"
      by (simp add: body update_movimentacao_valid [OF v])
    from execute_update_Inl [OF Inl [unfolded failure]]
    show ?thesis by (simp add: res)
  next
    case (Inr nc)
    obtain n c' where nc: "nc = (n, c')" by (cases nc)
    with Inr have res: "snd (update_movimentacao e i body s) = conn_close c'"
      by (simp add: body update_movimentacao_valid [OF v])
    from execute_update_Inr [OF Inr [unfolded nc]] consider
      (same) "c' = ?c"
      | (written) r where
          "c' = ?c\<lparr>movimentacoes :=
                    map (\<lambda>x. if id_row x = i then r\<lparr>id_row := id_row x\<rparr> else x)
                      (movimentacoes ?c)\<rparr>"
      by blast
    then show ?thesis
      by cases (simp_all add: res)
  qed
qed

lemma delete_frame:
  assumes "i \<notin> id_row ` set (movimentacoes s)"
  shows "movimentacoes (snd (delete_movimentacao i s)) = movimentacoes s
         \<and> sqlite_sequence (snd (delete_movimentacao i s)) = sqlite_sequence s"
proof -
  have "filter (\<lambda>r. id_row r \<noteq> i) (movimentacoes s) = movimentacoes s"
    using assms by (auto simp: filter_id_conv)
  then show ?thesis
    by (auto simp: delete_movimentacao_def execute_delete_def Let_def
          split: sum.splits if_splits)
qed

section \<open>The properties\<close>

subsection \<open>Facts about the sample data and the responses\<close>

lemma demo_items_typed:
  "storable_quantity q \<Longrightarrow>
   typed_body (demo_items q) ''entrada'' ''2024-01-10'' ''soja'' q None"
  by (simp add: typed_body_def demo_items_def dict_get_def)

lemma not_rejected_add:
  assumes "passes_validation items"
  shows "\<not> validation_failure (fst (add_movimentacao e (Json (PDict items)) s))"
  by (simp add: add_movimentacao_valid [OF assms] validation_failure_def
        split: sum.splits prod.splits)

lemma not_rejected_update:
  assumes "passes_validation items"
  shows "\<not> validation_failure (fst (update_movimentacao e i (Json (PDict items)) s))"
  by (simp add: update_movimentacao_valid [OF assms] validation_failure_def
        split: sum.splits prod.splits)

lemma now_no_surrogate: "\<not> has_surrogate (now e)"
  by (rule ascii_no_surrogate [OF now_ascii])

lemma demo_record_fits:
  "\<not> record_too_big e
      \<lparr>id_row = i, tipo = ''entrada'', data = ''2024-01-10'', produto = ''soja'',
       quantidade = SReal f, destino = None, timestamp = now e\<rparr>"
  by (rule record_fits) (use length_now [of e] in \<open>simp add: text_bytes_def\<close>)

text \<open>
  A create request with the quantity \<^verbatim>\<open>NaN\<close> passes validation, fails on the \<^verbatim>\<open>NOT NULL\<close>
  constraint and leaves its connection with the write lock. From then on a create, an
  update and a delete are answered with 500, while a listing still works; after the
  garbage collector has run, writes succeed again.
\<close>

lemma abandoned_connection_blocks_writes:
  "add_movimentacao demo_env (Json (PDict (demo_items (PFloat NaN)))) demo_state =
     (Response (JErrorExc IntegrityError) 500,
      demo_state\<lparr>open_conns := 1, write_lock := True\<rparr>)
   \<and> add_movimentacao demo_env (Json (PDict (demo_items (PInt 1500))))
       (demo_state\<lparr>open_conns := 1, write_lock := True\<rparr>) =
     (Response (JErrorExc OperationalError) 500,
      demo_state\<lparr>open_conns := 2, write_lock := True\<rparr>)
   \<and> update_movimentacao demo_env 1 (Json (PDict (demo_items (PInt 1500))))
       (demo_state\<lparr>open_conns := 1, write_lock := True\<rparr>) =
     (Response (JErrorExc OperationalError) 500,
      demo_state\<lparr>open_conns := 2, write_lock := True\<rparr>)
   \<and> delete_movimentacao 1 (demo_state\<lparr>open_conns := 1, write_lock := True\<rparr>) =
     (Response (JErrorExc OperationalError) 500,
      demo_state\<lparr>open_conns := 2, write_lock := True\<rparr>)
   \<and> fst (get_movimentacoes None None (demo_state\<lparr>open_conns := 1, write_lock := True\<rparr>)) =
     Response (JRows [demo_row 1 1500]) 200
   \<and> fst (delete_movimentacao 1
            (collect_garbage (demo_state\<lparr>open_conns := 1, write_lock := True\<rparr>))) =
     Response (JMessage msg_excluida) 200"
  using now_no_surrogate [of demo_env] length_now [of demo_env]
  by (simp add: add_movimentacao_def update_movimentacao_def delete_movimentacao_def
        get_movimentacoes_def query_conditions_def collect_garbage_def
        demo_items_def dict_get_def sql_defs demo_state_def demo_row_def)

text \<open>
  A destination with a lone surrogate (here U+D800) passes validation and fails to bind:
  the answer is 500, and no lock is taken.
\<close>

lemma lone_surrogate_fails_to_bind:
  "passes_validation (demo_items (PInt 1500) @ [(''destino'', PStr [CHR 0xED, CHR 0xA0, CHR 0x80])])
   \<and> add_movimentacao demo_env
       (Json (PDict (demo_items (PInt 1500) @ [(''destino'', PStr [CHR 0xED, CHR 0xA0, CHR 0x80])])))
       demo_state =
     (Response (JErrorExc UnicodeEncodeError) 500, demo_state\<lparr>open_conns := 1\<rparr>)"
  using now_no_surrogate [of demo_env] length_now [of demo_env]
  by (simp add: passes_validation_def add_movimentacao_def
        demo_items_def dict_get_def sql_defs demo_state_def demo_row_def)

subsection \<open>C1\<close>

text \<open>
  Claim C1. The claim has a quantity that is not a number refused with the message of
  \<open>msg_quantidade\<close>. The JSON value \<^verbatim>\<open>true\<close> is not a number, but Python's \<^verbatim>\<open>bool\<close> is a
  subclass of \<^verbatim>\<open>int\<close>: the request passes the check of line 109, and a record of
  quantity 1.0 is stored and answered with 201.
\<close>

theorem boolean_quantity_is_accepted:
  "add_movimentacao e (Json (PDict (demo_items (PBool True)))) fresh =
     (Response (JMessage msg_adicionada) 201,
      \<lparr>movimentacoes =
         [\<lparr>id_row = 1, tipo = ''entrada'', data = ''2024-01-10'', produto = ''soja'',
           quantidade = SReal (Finite 1), destino = None, timestamp = now e\<rparr>],
       sqlite_sequence = 1, open_conns = 0, write_lock = False\<rparr>)"
  using length_now [of e] now_no_surrogate [of e] demo_record_fits [of e 1 "Finite 1"]
  by (simp add: add_movimentacao_def demo_items_def dict_get_def sql_defs fresh_def
        int_to_double_def double_ulp_small)

theorem boolean_quantity_is_accepted_witness:
  "add_movimentacao demo_env (Json (PDict (demo_items (PBool True)))) fresh =
     (Response (JMessage msg_adicionada) 201,
      \<lparr>movimentacoes =
         [\<lparr>id_row = 1, tipo = ''entrada'', data = ''2024-01-10'', produto = ''soja'',
           quantidade = SReal (Finite 1), destino = None, timestamp = now demo_env\<rparr>],
       sqlite_sequence = 1, open_conns = 0, write_lock = False\<rparr>)"
  by (rule boolean_quantity_is_accepted)

subsection \<open>C2\<close>

text \<open>
  Claim C2, amended. The claim has every update of a missing id answered with 404. The
  id of the path is any natural number; one that does not fit SQLite's 64 bits makes the
  statement raise, and the handler answers 500 (the counterexample below). What holds
  has two parts.

  For a typed body (kind, date and product non-empty strings, the destination a string
  or null or missing, the strings without lone surrogate and of at most 999 999 000
  bytes together, the quantity a float above zero or an integer above zero and below
  \<open>2 ^ 63\<close>), an id within 64 bits, a table with distinct ids, and no abandoned
  connection holding the write lock: when no record has the id, the answer is 404 and
  the state is as before; when a record has it, the answer is the success message,
  exactly one position of the table holds that id, the record there keeps its id and
  gets the submitted kind, date, product, destination, the quantity as a 64-bit float
  and the time of the request, and every other record, the rowid counter, the
  connections and the lock are as before.

  For every update request whatsoever, on every state: the table keeps its length and
  its rowid counter, and every record whose id is not the target id stays as it is. So
  an update of an id that no record has mutates no row, whatever it answers.
\<close>

theorem update_changes_only_target:
  assumes "typed_body items t d p q dst" and "- (2 ^ 63) \<le> i" and "i < 2 ^ 63"
    and "distinct (map id_row (movimentacoes s))" and "\<not> write_lock s"
  shows "(i \<notin> id_row ` set (movimentacoes s) \<longrightarrow>
            update_movimentacao e i (Json (PDict items)) s =
              (Response (JError msg_nao_encontrada) 404, s))
       \<and> (i \<in> id_row ` set (movimentacoes s) \<longrightarrow>
            (\<exists>s'. update_movimentacao e i (Json (PDict items)) s =
                     (Response (JMessage msg_atualizada) 200, s')
                 \<and> sqlite_sequence s' = sqlite_sequence s
                 \<and> open_conns s' = open_conns s
                 \<and> write_lock s' = write_lock s
                 \<and> length (movimentacoes s') = length (movimentacoes s)
                 \<and> (\<exists>!k. k < length (movimentacoes s) \<and> id_row (movimentacoes s ! k) = i)
                 \<and> (\<forall>k < length (movimentacoes s).
                       movimentacoes s' ! k =
                         (if id_row (movimentacoes s ! k) = i
                          then (movimentacoes s ! k)
                                 \<lparr>tipo := t, data := d, produto := p,
                                  quantidade := SReal (as_double q), destino := dst,
                                  timestamp := now e\<rparr>
                          else movimentacoes s ! k))))
       \<and> (\<forall>e0 j body0 s0.
             length (movimentacoes (snd (update_movimentacao e0 j body0 s0)))
               = length (movimentacoes s0)
             \<and> sqlite_sequence (snd (update_movimentacao e0 j body0 s0)) = sqlite_sequence s0
             \<and> (\<forall>k < length (movimentacoes s0).
                   id_row (movimentacoes s0 ! k) \<noteq> j \<longrightarrow>
                   movimentacoes (snd (update_movimentacao e0 j body0 s0)) ! k
                     = movimentacoes s0 ! k))"
proof (intro conjI impI allI)
  assume "i \<notin> id_row ` set (movimentacoes s)"
  then show "update_movimentacao e i (Json (PDict items)) s =
               (Response (JError msg_nao_encontrada) 404, s)"
    by (simp add: update_movimentacao_typed [OF assms(1-3,5)])
next
  assume mem: "i \<in> id_row ` set (movimentacoes s)"
  let ?f = "\<lambda>r. if id_row r = i
                 then r\<lparr>tipo := t, data := d, produto := p,
                        quantidade := SReal (as_double q), destino := dst,
                        timestamp := now e\<rparr>
                 else r"
  let ?s' = "s\<lparr>movimentacoes := map ?f (movimentacoes s)\<rparr>"
  have res: "update_movimentacao e i (Json (PDict items)) s =
               (Response (JMessage msg_atualizada) 200, ?s')"
    using mem by (simp add: update_movimentacao_typed [OF assms(1-3,5)])
  from mem obtain x where "x \<in> set (movimentacoes s)" "id_row x = i" by auto
  then have uniq: "\<exists>!k. k < length (movimentacoes s) \<and> id_row (movimentacoes s ! k) = i"
    using distinct_unique_index [OF assms(4), of x] by simp
  show "\<exists>s'. update_movimentacao e i (Json (PDict items)) s =
                (Response (JMessage msg_atualizada) 200, s')
            \<and> sqlite_sequence s' = sqlite_sequence s
            \<and> open_conns s' = open_conns s
            \<and> write_lock s' = write_lock s
            \<and> length (movimentacoes s') = length (movimentacoes s)
            \<and> (\<exists>!k. k < length (movimentacoes s) \<and> id_row (movimentacoes s ! k) = i)
            \<and> (\<forall>k < length (movimentacoes s).
                  movimentacoes s' ! k =
                    (if id_row (movimentacoes s ! k) = i
                     then (movimentacoes s ! k)
                            \<lparr>tipo := t, data := d, produto := p,
                             quantidade := SReal (as_double q), destino := dst,
                             timestamp := now e\<rparr>
                     else movimentacoes s ! k))"
    using res uniq by (intro exI [of _ ?s']) simp
next
  fix e0 :: env and j :: int and body0 :: request_body and s0 :: state
  show "length (movimentacoes (snd (update_movimentacao e0 j body0 s0)))
          = length (movimentacoes s0)"
    using update_frame [of e0 j body0 s0] by blast
  show "sqlite_sequence (snd (update_movimentacao e0 j body0 s0)) = sqlite_sequence s0"
    using update_frame [of e0 j body0 s0] by blast
next
  fix e0 :: env and j :: int and body0 :: request_body and s0 :: state and k :: nat
  assume "k < length (movimentacoes s0)" "id_row (movimentacoes s0 ! k) \<noteq> j"
  then show "movimentacoes (snd (update_movimentacao e0 j body0 s0)) ! k
               = movimentacoes s0 ! k"
    using update_frame [of e0 j body0 s0] by blast
qed

theorem update_changes_only_target_witness:
  "typed_body (demo_items (PInt 2000)) ''entrada'' ''2024-01-10'' ''soja'' (PInt 2000) None
   \<and> - (2 ^ 63) \<le> (2 :: int) \<and> (2 :: int) < 2 ^ 63
   \<and> distinct (map id_row (movimentacoes demo_state2))
   \<and> \<not> write_lock demo_state2
   \<and> 2 \<in> id_row ` set (movimentacoes demo_state2)
   \<and> 9999 \<notin> id_row ` set (movimentacoes demo_state2)
   \<and> update_movimentacao demo_env 9999 (Json (PDict (demo_items (PInt 2000)))) demo_state2 =
       (Response (JError msg_nao_encontrada) 404, demo_state2)
   \<and> (\<exists>s'. update_movimentacao demo_env 2 (Json (PDict (demo_items (PInt 2000)))) demo_state2 =
              (Response (JMessage msg_atualizada) 200, s')
          \<and> movimentacoes s' ! 0 = movimentacoes demo_state2 ! 0
          \<and> movimentacoes s' ! 1 =
              (movimentacoes demo_state2 ! 1)
                \<lparr>tipo := ''entrada'', data := ''2024-01-10'', produto := ''soja'',
                 quantidade := SReal (as_double (PInt 2000)), destino := None,
                 timestamp := now demo_env\<rparr>)
   \<and> movimentacoes
        (snd (update_movimentacao demo_env 2 (Json (PDict (demo_items (PFloat NaN)))) demo_state2)) ! 0
       = movimentacoes demo_state2 ! 0"
proof -
  have h1: "typed_body (demo_items (PInt 2000)) ''entrada'' ''2024-01-10'' ''soja'' (PInt 2000) None"
    by (simp add: demo_items_typed)
  have h2: "- (2 ^ 63) \<le> (2 :: int)" "(2 :: int) < 2 ^ 63"
    "- (2 ^ 63) \<le> (9999 :: int)" "(9999 :: int) < 2 ^ 63" by simp_all
  have h3: "distinct (map id_row (movimentacoes demo_state2))"
    by (simp add: demo_state2_def demo_row_def)
  have h4: "2 \<in> id_row ` set (movimentacoes demo_state2)"
    "9999 \<notin> id_row ` set (movimentacoes demo_state2)"
    by (simp_all add: demo_state2_def demo_row_def)
  have h5: "\<not> write_lock demo_state2"
    by (simp add: demo_state2_def)
  have len: "length (movimentacoes demo_state2) = 2"
    and ids: "id_row (movimentacoes demo_state2 ! 0) \<noteq> 2" "id_row (movimentacoes demo_state2 ! 1) = 2"
    by (simp_all add: demo_state2_def demo_row_def)
  from update_changes_only_target [OF h1 h2(3,4) h3 h5, of demo_env] h4(2)
  have a: "update_movimentacao demo_env 9999 (Json (PDict (demo_items (PInt 2000)))) demo_state2 =
       (Response (JError msg_nao_encontrada) 404, demo_state2)"
    by blast
  from update_changes_only_target [OF h1 h2(1,2) h3 h5, of demo_env] h4(1)
  obtain s' where s': "update_movimentacao demo_env 2 (Json (PDict (demo_items (PInt 2000)))) demo_state2 =
              (Response (JMessage msg_atualizada) 200, s')"
    "\<forall>k < length (movimentacoes demo_state2).
        movimentacoes s' ! k =
          (if id_row (movimentacoes demo_state2 ! k) = 2
           then (movimentacoes demo_state2 ! k)
                  \<lparr>tipo := ''entrada'', data := ''2024-01-10'', produto := ''soja'',
                   quantidade := SReal (as_double (PInt 2000)), destino := None,
                   timestamp := now demo_env\<rparr>
           else movimentacoes demo_state2 ! k)"
    by blast
  from s'(2) len ids have b:
    "movimentacoes s' ! 0 = movimentacoes demo_state2 ! 0"
    "movimentacoes s' ! 1 =
       (movimentacoes demo_state2 ! 1)
         \<lparr>tipo := ''entrada'', data := ''2024-01-10'', produto := ''soja'',
          quantidade := SReal (as_double (PInt 2000)), destino := None,
          timestamp := now demo_env\<rparr>"
    by simp_all
  from update_changes_only_target [OF h1 h2(1,2) h3 h5, of demo_env]
  have "\<forall>k < length (movimentacoes demo_state2).
          id_row (movimentacoes demo_state2 ! k) \<noteq> 2 \<longrightarrow>
          movimentacoes
            (snd (update_movimentacao demo_env 2 (Json (PDict (demo_items (PFloat NaN))))
                    demo_state2)) ! k
            = movimentacoes demo_state2 ! k"
    by blast
  with len ids have c:
    "movimentacoes
       (snd (update_movimentacao demo_env 2 (Json (PDict (demo_items (PFloat NaN)))) demo_state2)) ! 0
     = movimentacoes demo_state2 ! 0"
    by simp
  from s'(1) a b c h1 h2 h3 h4 h5 show ?thesis by blast
qed

theorem update_changes_only_target_counterexample:
  "passes_validation (demo_items (PInt 1500))
   \<and> 9223372036854775808 \<notin> id_row ` set (movimentacoes demo_state)
   \<and> update_movimentacao demo_env 9223372036854775808 (Json (PDict (demo_items (PInt 1500))))
       demo_state =
       (Response (JErrorExc OverflowError) 500,
        \<lparr>movimentacoes = [demo_row 1 1500], sqlite_sequence = 1, open_conns = 1,
         write_lock = False\<rparr>)"
  using now_no_surrogate [of demo_env] length_now [of demo_env]
  by (simp add: passes_validation_def update_movimentacao_def demo_items_def dict_get_def
        sql_defs demo_state_def demo_row_def)

subsection \<open>C3\<close>

text \<open>
  Claim C3, amended. The claim applies a bound whenever it is given. The handler tests
  the query argument for truthiness, so a bound given as the empty string is not
  applied: with \<^verbatim>\<open>dataFim=\<close> every record is listed, although no date is at most the empty
  string (the counterexample below). What holds, for every state and every pair of
  optional bounds: the listed records are exactly the records whose date is at least the
  lower bound, when that is given and not empty, and at most the upper bound, when that
  is given and not empty, under the bytewise lexicographic order; they come by
  descending timestamp; and the state is as before.
\<close>

theorem list_filters_and_orders:
  "\<exists>rs. get_movimentacoes d1 d2 s = (Response (JRows rs) 200, s)
        \<and> mset rs = filter_mset (in_range d1 d2) (mset (movimentacoes s))
        \<and> sorted_wrt (\<lambda>a b. timestamp b \<le> timestamp a) rs"
  using execute_select_mset [of d1 d2 s] execute_select_sorted [of "query_conditions d1 d2" s]
  by (intro exI [of _ "execute_select (query_conditions d1 d2) s"])
     (simp add: get_movimentacoes_eq)

theorem list_filters_and_orders_witness:
  "\<exists>rs. get_movimentacoes (Some ''2024-01-11'') (Some ''2024-01-31'') demo_state2 =
          (Response (JRows rs) 200, demo_state2)
        \<and> mset rs = {#movimentacoes demo_state2 ! 1#}
        \<and> sorted_wrt (\<lambda>a b. timestamp b \<le> timestamp a) rs"
proof -
  have "filter_mset (in_range (Some ''2024-01-11'') (Some ''2024-01-31''))
          (mset (movimentacoes demo_state2)) = {#movimentacoes demo_state2 ! 1#}"
    by (simp add: in_range_def demo_state2_def demo_row_def less_eq_list_code)
  with list_filters_and_orders [of "Some ''2024-01-11''" "Some ''2024-01-31''" demo_state2]
  show ?thesis by simp
qed

theorem list_filters_and_orders_counterexample:
  "get_movimentacoes None (Some []) demo_state = (Response (JRows [demo_row 1 1500]) 200, demo_state)
   \<and> \<not> data (demo_row 1 1500) \<le> []"
  by (simp add: get_movimentacoes_eq execute_select_def query_conditions_def demo_state_def
        demo_row_def)

subsection \<open>C4\<close>

text \<open>
  Claim C4. In every state that the handlers and \<open>init_db\<close> reach from a new database
  file, each record has a quantity above zero and a non-empty kind, date and product, the
  ids are distinct, positive and at most the rowid counter; and each further operation
  keeps all that, never lowers the counter, and either leaves the ids of the table as
  they are, position by position, or appends one id above the counter, hence above
  every id assigned so far, or removes the occurrences of one id.
\<close>

theorem store_invariant:
  assumes "reachable s" and "step s s'"
  shows "store_inv s \<and> store_inv s'
       \<and> sqlite_sequence s \<le> sqlite_sequence s'
       \<and> (map id_row (movimentacoes s') = map id_row (movimentacoes s)
          \<or> (sqlite_sequence s < sqlite_sequence s' \<and>
              map id_row (movimentacoes s') = map id_row (movimentacoes s) @ [sqlite_sequence s'])
          \<or> (\<exists>i. map id_row (movimentacoes s') =
                    filter (\<lambda>j. j \<noteq> i) (map id_row (movimentacoes s))))"
proof -
  have inv: "store_inv s"
    by (rule reachable_inv [OF assms(1)])
  from step_preserves [OF inv assms(2)] inv show ?thesis
    unfolding ids_evolve_def by blast
qed

theorem store_invariant_witness:
  "reachable (snd (add_movimentacao demo_env (Json (PDict (demo_items (PInt 1500)))) fresh))
   \<and> step (snd (add_movimentacao demo_env (Json (PDict (demo_items (PInt 1500)))) fresh))
        (snd (delete_movimentacao 1
               (snd (add_movimentacao demo_env (Json (PDict (demo_items (PInt 1500)))) fresh))))
   \<and> movimentacoes (snd (add_movimentacao demo_env (Json (PDict (demo_items (PInt 1500)))) fresh))
       = [demo_row 1 1500]
   \<and> store_inv (snd (add_movimentacao demo_env (Json (PDict (demo_items (PInt 1500)))) fresh))
   \<and> store_inv
        (snd (delete_movimentacao 1
               (snd (add_movimentacao demo_env (Json (PDict (demo_items (PInt 1500)))) fresh))))
   \<and> sqlite_sequence (snd (add_movimentacao demo_env (Json (PDict (demo_items (PInt 1500)))) fresh))
       \<le> sqlite_sequence
           (snd (delete_movimentacao 1
                  (snd (add_movimentacao demo_env (Json (PDict (demo_items (PInt 1500)))) fresh))))"
proof -
  let ?s1 = "snd (add_movimentacao demo_env (Json (PDict (demo_items (PInt 1500)))) fresh)"
  have e: "sqlite_text demo_env"
    by (simp add: sqlite_text_def demo_env_def)
  have r: "reachable ?s1"
    by (rule reachable_step [OF reachable_fresh step_add [OF e]])
  have st: "step ?s1 (snd (delete_movimentacao 1 ?s1))"
    by (rule step_delete)
  have h1: "typed_body (demo_items (PInt 1500)) ''entrada'' ''2024-01-10'' ''soja'' (PInt 1500) None"
    by (simp add: demo_items_typed)
  have h2: "largest_rowid fresh < 2 ^ 63 - 1"
    by (simp add: largest_rowid_def fresh_def)
  have h3: "\<not> write_lock fresh"
    by (simp add: fresh_def)
  have rows: "movimentacoes ?s1 = [demo_row 1 1500]"
    unfolding add_movimentacao_typed [OF h1 h2 h3]
    by (simp add: int_to_double_exact demo_row_def largest_rowid_def fresh_def now_demo_env)
  from store_invariant [OF r st] r st rows show ?thesis
    by blast
qed

subsection \<open>C5\<close>

text \<open>
  Claim C5. The claim has the connection released on every exit path. When the
  statement raises, here for an integer quantity that does not fit SQLite's 64 bits,
  the handler answers 500 from its \<^verbatim>\<open>except\<close> branch without calling \<^verbatim>\<open>conn.close()\<close>:
  one more connection stays open. On the successful path the connection is closed.
\<close>

theorem failed_insert_leaves_connection_open:
  "add_movimentacao e (Json (PDict (demo_items (PInt (10 ^ 20))))) s =
     (Response (JErrorExc OverflowError) 500, s\<lparr>open_conns := open_conns s + 1\<rparr>)
   \<and> add_movimentacao e (Json (PDict (demo_items (PInt 1500)))) fresh =
     (Response (JMessage msg_adicionada) 201,
      fresh\<lparr>movimentacoes :=
         [\<lparr>id_row = 1, tipo = ''entrada'', data = ''2024-01-10'', produto = ''soja'',
           quantidade = SReal (Finite 1500), destino = None, timestamp = now e\<rparr>],
       sqlite_sequence := 1\<rparr>)"
  using length_now [of e] now_no_surrogate [of e] demo_record_fits [of e 1 "Finite 1500"]
  by (simp add: add_movimentacao_def demo_items_def dict_get_def sql_defs fresh_def
        int_to_double_def double_ulp_small)

theorem failed_insert_leaves_connection_open_witness:
  "add_movimentacao demo_env (Json (PDict (demo_items (PInt (10 ^ 20))))) fresh =
     (Response (JErrorExc OverflowError) 500, fresh\<lparr>open_conns := open_conns fresh + 1\<rparr>)
   \<and> open_conns (snd (add_movimentacao demo_env (Json (PDict (demo_items (PInt 1500)))) fresh)) = 0"
  using failed_insert_leaves_connection_open [of demo_env fresh]
  by (simp add: fresh_def)

subsection \<open>C6\<close>

text \<open>
  Claim C6. A create or update request that fails validation, answered with one of the
  three 400 responses of the handlers or refused by Flask because the body does not
  parse, leaves the whole state as it was: table, rowid counter and connections.
\<close>

theorem validation_failure_writes_nothing:
  "(validation_failure (fst (add_movimentacao e body s))
      \<longrightarrow> snd (add_movimentacao e body s) = s)
   \<and> (validation_failure (fst (update_movimentacao e i body s))
      \<longrightarrow> snd (update_movimentacao e i body s) = s)"
proof (cases "\<exists>items. body = Json (PDict items) \<and> passes_validation items")
  case True
  then show ?thesis
    using not_rejected_add not_rejected_update by blast
next
  case False
  then show ?thesis
    using add_movimentacao_invalid [of body e s] update_movimentacao_invalid [of body e i s]
    by blast
qed

theorem validation_failure_writes_nothing_witness:
  "validation_failure (fst (add_movimentacao demo_env (Json (PDict (demo_items (PInt (- 5))))) demo_state))
   \<and> snd (add_movimentacao demo_env (Json (PDict (demo_items (PInt (- 5))))) demo_state) = demo_state
   \<and> validation_failure (fst (update_movimentacao demo_env 1 (Json (PDict [(''tipo'', PStr ''saida'')])) demo_state))
   \<and> snd (update_movimentacao demo_env 1 (Json (PDict [(''tipo'', PStr ''saida'')])) demo_state) = demo_state"
proof -
  have a: "validation_failure
             (fst (add_movimentacao demo_env (Json (PDict (demo_items (PInt (- 5))))) demo_state))"
    by (simp add: add_movimentacao_def demo_items_def dict_get_def validation_failure_def)
  have b: "validation_failure
             (fst (update_movimentacao demo_env 1 (Json (PDict [(''tipo'', PStr ''saida'')])) demo_state))"
    by (simp add: update_movimentacao_def dict_get_def validation_failure_def)
  from a b
    validation_failure_writes_nothing
      [where e = demo_env and body = "Json (PDict (demo_items (PInt (- 5))))"
         and s = demo_state]
    validation_failure_writes_nothing
      [where e = demo_env and body = "Json (PDict [(''tipo'', PStr ''saida'')])"
         and s = demo_state and i = 1]
  show ?thesis by blast
qed

subsection \<open>C7\<close>

text \<open>
  Claim C7, amended. The claim has every create request that passes validation stored
  and answered with 201. A request can pass validation and still fail in the store, which
  the handler answers with 500 from its \<^verbatim>\<open>except\<close> branch (the counterexample below: an
  integer quantity of \<open>2 ^ 63\<close>). What holds: for a typed body (kind, date and product
  non-empty strings, the destination a string or null or missing, the strings without
  lone surrogate and of at most 999 999 000 bytes together, the quantity a float above
  zero or an integer above zero and below \<open>2 ^ 63\<close>), while the table can still assign a
  rowid and no abandoned connection holds the write lock, the handler answers 201 and
  appends exactly one record. The record carries the submitted strings, \<open>None\<close> for a
  missing destination, the time of the request, a rowid that no record of the table has
  and that is larger than the rowid counter, and the quantity as the 64-bit float of the
  \<^verbatim>\<open>REAL\<close> column: the submitted value itself for a float and for an integer up to
  \<open>2 ^ 53\<close>. The connections and the lock are as before.
\<close>

theorem create_persists_record:
  assumes "typed_body items t d p q dst" and "largest_rowid s < 2 ^ 63 - 1"
    and "\<not> write_lock s"
  shows "\<exists>r. add_movimentacao e (Json (PDict items)) s =
               (Response (JMessage msg_adicionada) 201,
                s\<lparr>movimentacoes := movimentacoes s @ [r], sqlite_sequence := id_row r\<rparr>)
             \<and> tipo r = t \<and> data r = d \<and> produto r = p \<and> destino r = dst
             \<and> quantidade r = SReal (as_double q)
             \<and> (exact_quantity q \<longrightarrow> same_number (quantidade r) q)
             \<and> timestamp r = now e
             \<and> id_row r \<notin> id_row ` set (movimentacoes s)
             \<and> sqlite_sequence s < id_row r"
proof -
  let ?r = "\<lparr>id_row = largest_rowid s + 1, tipo = t, data = d, produto = p,
             quantidade = SReal (as_double q), destino = dst, timestamp = now e\<rparr>"
  have fresh_id: "largest_rowid s + 1 \<notin> id_row ` set (movimentacoes s)"
    using largest_rowid_mem [of _ s] by fastforce
  have "add_movimentacao e (Json (PDict items)) s =
          (Response (JMessage msg_adicionada) 201,
           s\<lparr>movimentacoes := movimentacoes s @ [?r], sqlite_sequence := id_row ?r\<rparr>)"
    using add_movimentacao_typed [OF assms] by simp
  moreover have "exact_quantity q \<longrightarrow> same_number (quantidade ?r) q"
    by (simp add: exact_quantity_same)
  moreover have "id_row ?r \<notin> id_row ` set (movimentacoes s)"
    using fresh_id by simp
  moreover have "sqlite_sequence s < id_row ?r"
    using largest_rowid_ge [of s] by simp
  ultimately show ?thesis
    by (intro exI [of _ ?r]) simp
qed

theorem create_persists_record_witness:
  "typed_body (demo_items (PInt 1500)) ''entrada'' ''2024-01-10'' ''soja'' (PInt 1500) None
   \<and> largest_rowid demo_state < 2 ^ 63 - 1
   \<and> \<not> write_lock demo_state
   \<and> exact_quantity (PInt 1500)
   \<and> (\<exists>r. add_movimentacao demo_env (Json (PDict (demo_items (PInt 1500)))) demo_state =
               (Response (JMessage msg_adicionada) 201,
                demo_state\<lparr>movimentacoes := movimentacoes demo_state @ [r],
                            sqlite_sequence := id_row r\<rparr>)
             \<and> tipo r = ''entrada'' \<and> data r = ''2024-01-10'' \<and> produto r = ''soja''
             \<and> destino r = None
             \<and> same_number (quantidade r) (PInt 1500)
             \<and> timestamp r = now demo_env
             \<and> id_row r \<notin> id_row ` set (movimentacoes demo_state)
             \<and> sqlite_sequence demo_state < id_row r)"
proof -
  have h1: "typed_body (demo_items (PInt 1500)) ''entrada'' ''2024-01-10'' ''soja'' (PInt 1500) None"
    by (simp add: demo_items_typed)
  have h2: "largest_rowid demo_state < 2 ^ 63 - 1"
    by (simp add: largest_rowid_def demo_state_def demo_row_def)
  have h3: "exact_quantity (PInt 1500)"
    by simp
  have h4: "\<not> write_lock demo_state"
    by (simp add: demo_state_def)
  from create_persists_record [OF h1 h2 h4, of demo_env] h1 h2 h3 h4 show ?thesis
    by blast
qed

theorem create_persists_record_counterexample:
  "passes_validation (demo_items (PInt 9223372036854775808))
   \<and> add_movimentacao demo_env (Json (PDict (demo_items (PInt 9223372036854775808)))) fresh =
       (Response (JErrorExc OverflowError) 500,
        \<lparr>movimentacoes = [], sqlite_sequence = 0, open_conns = 1, write_lock = False\<rparr>)"
  by (simp add: passes_validation_def add_movimentacao_def demo_items_def dict_get_def
        sql_defs fresh_def)

subsection \<open>C8\<close>

text \<open>
  Claim C8, amended. The claim has every delete of an absent id answered with 404. An
  id that does not fit SQLite's 64 bits makes the statement raise, and the handler
  answers 500 (the counterexample below). What holds has two parts.

  For an id within 64 bits, while no abandoned connection holds the write lock: when a
  record has the id, the first delete answers the success message and removes the
  records with that id and nothing else, and a second delete of the same id answers 404
  and changes nothing; when no record has the id, the delete answers 404 and changes
  nothing.

  For every id that no record has, on every state: the delete leaves the table and the
  rowid counter as they are, whatever it answers.
\<close>

theorem delete_twice:
  assumes "- (2 ^ 63) \<le> i" and "i < 2 ^ 63" and "\<not> write_lock s"
  shows "(i \<in> id_row ` set (movimentacoes s) \<longrightarrow>
            (\<exists>s'. delete_movimentacao i s = (Response (JMessage msg_excluida) 200, s')
                 \<and> movimentacoes s' = filter (\<lambda>r. id_row r \<noteq> i) (movimentacoes s)
                 \<and> i \<notin> id_row ` set (movimentacoes s')
                 \<and> sqlite_sequence s' = sqlite_sequence s
                 \<and> open_conns s' = open_conns s
                 \<and> write_lock s' = write_lock s
                 \<and> delete_movimentacao i s' = (Response (JError msg_nao_encontrada) 404, s')))
       \<and> (i \<notin> id_row ` set (movimentacoes s) \<longrightarrow>
            delete_movimentacao i s = (Response (JError msg_nao_encontrada) 404, s))
       \<and> (\<forall>j s0. j \<notin> id_row ` set (movimentacoes s0) \<longrightarrow>
             movimentacoes (snd (delete_movimentacao j s0)) = movimentacoes s0
             \<and> sqlite_sequence (snd (delete_movimentacao j s0)) = sqlite_sequence s0)"
proof (intro conjI impI allI)
  assume "i \<notin> id_row ` set (movimentacoes s)"
  then show "delete_movimentacao i s = (Response (JError msg_nao_encontrada) 404, s)"
    by (simp add: delete_movimentacao_eq [OF assms])
next
  assume mem: "i \<in> id_row ` set (movimentacoes s)"
  let ?s' = "s\<lparr>movimentacoes := filter (\<lambda>r. id_row r \<noteq> i) (movimentacoes s)\<rparr>"
  have gone: "i \<notin> id_row ` set (movimentacoes ?s')" by auto
  have lock: "\<not> write_lock ?s'"
    using assms(3) by simp
  have "delete_movimentacao i s = (Response (JMessage msg_excluida) 200, ?s')"
    using mem by (simp add: delete_movimentacao_eq [OF assms])
  moreover have "delete_movimentacao i ?s' = (Response (JError msg_nao_encontrada) 404, ?s')"
    using gone by (simp add: delete_movimentacao_eq [OF assms(1,2) lock])
  ultimately show "\<exists>s'. delete_movimentacao i s = (Response (JMessage msg_excluida) 200, s')
                 \<and> movimentacoes s' = filter (\<lambda>r. id_row r \<noteq> i) (movimentacoes s)
                 \<and> i \<notin> id_row ` set (movimentacoes s')
                 \<and> sqlite_sequence s' = sqlite_sequence s
                 \<and> open_conns s' = open_conns s
                 \<and> write_lock s' = write_lock s
                 \<and> delete_movimentacao i s' = (Response (JError msg_nao_encontrada) 404, s')"
    using gone by (intro exI [of _ ?s']) simp
next
  fix j :: int and s0 :: state
  assume "j \<notin> id_row ` set (movimentacoes s0)"
  then show "movimentacoes (snd (delete_movimentacao j s0)) = movimentacoes s0"
    and "sqlite_sequence (snd (delete_movimentacao j s0)) = sqlite_sequence s0"
    using delete_frame [of j s0] by blast+
qed

theorem delete_twice_witness:
  "- (2 ^ 63) \<le> (1 :: int) \<and> (1 :: int) < 2 ^ 63
   \<and> \<not> write_lock demo_state2
   \<and> 1 \<in> id_row ` set (movimentacoes demo_state2)
   \<and> 7 \<notin> id_row ` set (movimentacoes demo_state2)
   \<and> (\<exists>s'. delete_movimentacao 1 demo_state2 = (Response (JMessage msg_excluida) 200, s')
          \<and> 1 \<notin> id_row ` set (movimentacoes s')
          \<and> delete_movimentacao 1 s' = (Response (JError msg_nao_encontrada) 404, s'))
   \<and> delete_movimentacao 7 demo_state2 = (Response (JError msg_nao_encontrada) 404, demo_state2)
   \<and> movimentacoes (snd (delete_movimentacao 9223372036854775808 demo_state2))
       = movimentacoes demo_state2"
proof -
  have h: "- (2 ^ 63) \<le> (1 :: int)" "(1 :: int) < 2 ^ 63"
    "- (2 ^ 63) \<le> (7 :: int)" "(7 :: int) < 2 ^ 63" by simp_all
  have m: "1 \<in> id_row ` set (movimentacoes demo_state2)"
    "7 \<notin> id_row ` set (movimentacoes demo_state2)"
    "9223372036854775808 \<notin> id_row ` set (movimentacoes demo_state2)"
    by (simp_all add: demo_state2_def demo_row_def)
  have l: "\<not> write_lock demo_state2"
    by (simp add: demo_state2_def)
  from delete_twice [OF h(1,2) l] delete_twice [OF h(3,4) l] h m l
  show ?thesis by blast
qed

theorem delete_twice_counterexample:
  "9223372036854775808 \<notin> id_row ` set (movimentacoes demo_state)
   \<and> delete_movimentacao 9223372036854775808 demo_state =
       (Response (JErrorExc OverflowError) 500,
        \<lparr>movimentacoes = [demo_row 1 1500], sqlite_sequence = 1, open_conns = 1,
         write_lock = False\<rparr>)"
  by (simp add: delete_movimentacao_def sql_defs demo_state_def demo_row_def)

subsection \<open>C9\<close>

text \<open>
  Claim C9, amended. The claim has the quantity of the listed record equal to the
  submitted number for every valid input. The column is \<^verbatim>\<open>REAL\<close>: an integer beyond
  \<open>2 ^ 53\<close> comes back rounded (the counterexample below). What holds: for a typed body
  (kind, date and product non-empty strings, the destination a string or null or
  missing, the strings without lone surrogate and of at most 999 999 000 bytes together,
  the quantity a float above zero or an integer above zero and below \<open>2 ^ 63\<close>), while
  the table can still assign a rowid and no abandoned connection holds the write lock,
  listing without a date filter right after the create returns a record with the
  submitted strings and the quantity as a 64-bit float, which is the submitted value for
  a float and for an integer up to \<open>2 ^ 53\<close>.
\<close>

theorem create_then_list_round_trip:
  assumes "typed_body items t d p q dst" and "largest_rowid s < 2 ^ 63 - 1"
    and "\<not> write_lock s"
  shows "\<exists>rs r. get_movimentacoes None None (snd (add_movimentacao e (Json (PDict items)) s)) =
                 (Response (JRows rs) 200, snd (add_movimentacao e (Json (PDict items)) s))
               \<and> r \<in> set rs
               \<and> tipo r = t \<and> data r = d \<and> produto r = p \<and> destino r = dst
               \<and> quantidade r = SReal (as_double q)
               \<and> (exact_quantity q \<longrightarrow> same_number (quantidade r) q)"
proof -
  let ?r = "\<lparr>id_row = largest_rowid s + 1, tipo = t, data = d, produto = p,
             quantidade = SReal (as_double q), destino = dst, timestamp = now e\<rparr>"
  let ?s' = "snd (add_movimentacao e (Json (PDict items)) s)"
  have rows: "movimentacoes ?s' = movimentacoes s @ [?r]"
    by (simp add: add_movimentacao_typed [OF assms])
  have "set (execute_select (query_conditions None None) ?s') = set (movimentacoes ?s')"
    by (simp add: execute_select_def query_conditions_def)
  then have "?r \<in> set (execute_select (query_conditions None None) ?s')"
    by (simp add: rows)
  moreover have "exact_quantity q \<longrightarrow> same_number (quantidade ?r) q"
    by (simp add: exact_quantity_same)
  ultimately show ?thesis
    by (intro exI [of _ "execute_select (query_conditions None None) ?s'"] exI [of _ ?r])
       (simp add: get_movimentacoes_eq)
qed

theorem create_then_list_round_trip_witness:
  "typed_body (demo_items (PFloat (Finite (3 / 2)))) ''entrada'' ''2024-01-10'' ''soja''
     (PFloat (Finite (3 / 2))) None
   \<and> largest_rowid fresh < 2 ^ 63 - 1
   \<and> \<not> write_lock fresh
   \<and> exact_quantity (PFloat (Finite (3 / 2)))
   \<and> (\<exists>rs r. get_movimentacoes None None
                 (snd (add_movimentacao demo_env (Json (PDict (demo_items (PFloat (Finite (3 / 2)))))) fresh)) =
                 (Response (JRows rs) 200,
                  snd (add_movimentacao demo_env (Json (PDict (demo_items (PFloat (Finite (3 / 2)))))) fresh))
               \<and> r \<in> set rs
               \<and> tipo r = ''entrada'' \<and> data r = ''2024-01-10'' \<and> produto r = ''soja''
               \<and> destino r = None
               \<and> same_number (quantidade r) (PFloat (Finite (3 / 2))))"
proof -
  have h1: "typed_body (demo_items (PFloat (Finite (3 / 2)))) ''entrada'' ''2024-01-10'' ''soja''
     (PFloat (Finite (3 / 2))) None"
    by (simp add: demo_items_typed)
  have h2: "largest_rowid fresh < 2 ^ 63 - 1"
    by (simp add: largest_rowid_def fresh_def)
  have h3: "exact_quantity (PFloat (Finite (3 / 2)))"
    by simp
  have h4: "\<not> write_lock fresh"
    by (simp add: fresh_def)
  from create_then_list_round_trip [OF h1 h2 h4, of demo_env] h1 h2 h3 h4 show ?thesis
    by blast
qed

theorem create_then_list_round_trip_counterexample:
  "typed_body (demo_items (PInt 9007199254740993)) ''entrada'' ''2024-01-10'' ''soja''
     (PInt 9007199254740993) None
   \<and> get_movimentacoes None None
       (snd (add_movimentacao demo_env (Json (PDict (demo_items (PInt 9007199254740993)))) fresh)) =
       (Response (JRows [demo_row 1 9007199254740992]) 200,
        \<lparr>movimentacoes = [demo_row 1 9007199254740992], sqlite_sequence = 1, open_conns = 0,
         write_lock = False\<rparr>)
   \<and> \<not> same_number (quantidade (demo_row 1 9007199254740992)) (PInt 9007199254740993)"
proof -
  have h1: "typed_body (demo_items (PInt 9007199254740993)) ''entrada'' ''2024-01-10'' ''soja''
     (PInt 9007199254740993) None"
    by (simp add: demo_items_typed)
  have h2: "largest_rowid fresh < 2 ^ 63 - 1"
    by (simp add: largest_rowid_def fresh_def)
  have h3: "\<not> write_lock fresh"
    by (simp add: fresh_def)
  have "snd (add_movimentacao demo_env (Json (PDict (demo_items (PInt 9007199254740993)))) fresh)
        = \<lparr>movimentacoes = [demo_row 1 9007199254740992], sqlite_sequence = 1, open_conns = 0,
           write_lock = False\<rparr>"
    unfolding add_movimentacao_typed [OF h1 h2 h3]
    by (simp add: int_to_double_rounds demo_row_def largest_rowid_def fresh_def now_demo_env)
  then show ?thesis
    using h1
    by (simp add: get_movimentacoes_eq execute_select_def query_conditions_def demo_row_def)
qed

subsection \<open>C10\<close>

text \<open>
  Claim C10. A create or update request whose body parses as JSON but is falsy
  (\<^verbatim>\<open>{}\<close>, \<^verbatim>\<open>[]\<close>, \<^verbatim>\<open>null\<close>, \<^verbatim>\<open>0\<close>, \<^verbatim>\<open>false\<close>, the empty string) is answered with
  status 400 and the message of \<open>msg_dados_invalidos\<close>, which is not the answer for missing
  fields, and the state is as before.
\<close>

theorem falsy_body_is_invalid_input:
  assumes "\<not> truthy d"
  shows "add_movimentacao e (Json d) s = (Response (JError msg_dados_invalidos) 400, s)
       \<and> update_movimentacao e i (Json d) s = (Response (JError msg_dados_invalidos) 400, s)
       \<and> Response (JError msg_dados_invalidos) 400 \<noteq> Response (JError msg_campos_faltando) 400"
  using assms
  by (simp add: add_movimentacao_def update_movimentacao_def msg_dados_invalidos_def
        msg_campos_faltando_def)

theorem falsy_body_is_invalid_input_witness:
  "\<not> truthy (PDict [])
   \<and> add_movimentacao demo_env (Json (PDict [])) demo_state
       = (Response (JError msg_dados_invalidos) 400, demo_state)
   \<and> update_movimentacao demo_env 1 (Json (PDict [])) demo_state
       = (Response (JError msg_dados_invalidos) 400, demo_state)"
proof -
  have h: "\<not> truthy (PDict [])" by simp
  from falsy_body_is_invalid_input [OF h, of demo_env demo_state 1] h show ?thesis by blast
qed

end
